theory Spec2Isabelle
  imports Main "HOL-Library.Multiset"
begin

section \<open>Values of a JSON request body\<close>

text \<open>
  The fields the handlers read from \<open>req.body\<close> are strings (names, texts, enum
  values, dates and identifiers in their textual form). A field is absent
  (\<open>undefined\<close> after destructuring), explicitly \<open>null\<close>, or a string, possibly the
  empty one. Characters are code points below 256.

  An \<open>oid\<close> is the text of a stored document identifier, as \<open>toString()\<close> gives it.
  A path parameter or a body field that should name a document is any string; the
  store's client casts it to an identifier or rejects it. The caller's identifier is
  what the authentication middleware (not among the sources) resolved from the token
  (\<open>req.userId\<close> in \<open>routes/projects.js\<close>, \<open>req.user.id\<close> in the other routes);
  it is the identifier of a user.
\<close>

type_synonym oid = string

datatype jsval = Undefined | Null | Str string

text \<open>JavaScript truthiness: \<open>undefined\<close>, \<open>null\<close> and \<open>""\<close> are falsy.\<close>

fun truthy :: "jsval \<Rightarrow> bool" where
  "truthy Undefined = False"
| "truthy Null = False"
| "truthy (Str s) = (s \<noteq> [])"

text \<open>\<open>a || b\<close>\<close>

definition js_or :: "jsval \<Rightarrow> jsval \<Rightarrow> jsval" where
  "js_or a b = (if truthy a then a else b)"

text \<open>\<open>a !== undefined ? a : b\<close>\<close>

definition unless_undefined :: "jsval \<Rightarrow> jsval \<Rightarrow> jsval" where
  "unless_undefined a b = (if a \<noteq> Undefined then a else b)"

text \<open>\<open>`${v}`\<close> inside a template literal.\<close>

fun template :: "jsval \<Rightarrow> string" where
  "template Undefined = ''undefined''"
| "template Null = ''null''"
| "template (Str s) = s"

text \<open>
  \<open>String.prototype.trim\<close>, which the Board schema applies to \<open>name\<close>
  (\<open>trim: true\<close>): white space is tab, line feed, vertical tab, form feed, carriage
  return, space and no-break space.
\<close>

definition is_space :: "char \<Rightarrow> bool" where
  "is_space c = (of_char c \<in> {9, 10, 11, 12, 13, 32, 160 :: nat})"

definition trim :: "string \<Rightarrow> string" where
  "trim s = rev (dropWhile is_space (rev (dropWhile is_space s)))"

fun trim_setter :: "jsval \<Rightarrow> jsval" where
  "trim_setter (Str s) = Str (trim s)"
| "trim_setter v = v"

section \<open>Documents and the store\<close>

text \<open>
  A project's \<open>members\<close> array holds subdocuments \<open>{ user, role }\<close>
  (\<open>routes/projects.js\<close>, the create handler and the \<open>'members.user'\<close> query).
\<close>

record member =
  m_user :: oid
  m_role :: string

text \<open>
  Modelled from the spec: \<open>models/Project.js\<close> is not among the sources. The fields
  are those the spec's data model lists and \<open>routes/projects.js\<close> writes (name,
  description, owner, members, status, tags); the time of creation, by which the spec
  orders listings, is kept as for a board.
\<close>

record project =
  p_id :: oid
  p_name :: jsval
  p_description :: jsval
  p_owner :: oid
  p_members :: "member list"
  p_status :: jsval
  p_tags :: "string list option"
  p_createdAt :: nat

text \<open>
  \<open>models/Board.js\<close>. The \<open>columns\<close> array is never read or written by a route
  and is left out.
\<close>

record board =
  b_id :: oid
  b_name :: jsval
  b_description :: jsval
  b_project :: oid
  b_createdAt :: nat

text \<open>
  Modelled from the spec: \<open>models/Task.js\<close>, \<open>models/Comment.js\<close> and
  \<open>models/Notification.js\<close> are not among the sources. The fields are those the
  routes write, read and sort by, which are the ones of the spec's data model; a
  notification has the spec's read flag. The users collection holds only what
  \<open>routes/projects.js\<close> writes to it.
\<close>

record task =
  t_id :: oid
  t_title :: jsval
  t_description :: jsval
  t_priority :: jsval
  t_status :: jsval
  t_dueDate :: jsval
  t_board :: jsval
  t_project :: oid
  t_createdBy :: oid
  t_assignedTo :: jsval
  t_createdAt :: nat

record comment =
  c_id :: oid
  c_content :: jsval
  c_task :: oid
  c_author :: oid
  c_createdAt :: nat

record notification =
  n_id :: oid
  n_user :: oid
  n_type :: string
  n_message :: string
  n_relatedTask :: oid
  n_relatedProject :: oid
  n_read :: bool
  n_createdAt :: nat

record user =
  u_id :: oid
  u_projects :: "oid list"

text \<open>
  Each collection is the list of its documents in the store's natural order: a new
  document is appended. Fresh identifiers and the clock are inputs of the handlers
  that create documents.
\<close>

record store =
  users :: "user list"
  projects :: "project list"
  boards :: "board list"
  tasks :: "task list"
  comments :: "comment list"
  notifications :: "notification list"

definition empty_store :: store where
  "empty_store = \<lparr>users = [], projects = [], boards = [], tasks = [],
     comments = [], notifications = []\<rparr>"

section \<open>The client of the store\<close>

text \<open>
  What the routes call and the sources do not hold: how the client casts a string to
  an identifier (\<open>cast_id\<close>, \<open>None\<close> when it rejects the string), whether it
  refuses to populate a path that the schema does not declare (\<open>strict_populate\<close>,
  which depends on its version), and the Task, Comment and Notification schemas. A
  schema decides at \<open>save()\<close> whether the document is accepted and in which form it
  is stored (\<open>None\<close> when casting or validation fails).
\<close>

record client =
  cast_id :: "string \<Rightarrow> oid option"
  strict_populate :: bool
  task_schema :: "task \<Rightarrow> task option"
  comment_schema :: "comment \<Rightarrow> comment option"
  notification_schema :: "notification \<Rightarrow> notification option"

text \<open>
  \<open>Model.findById(id)\<close> for a string of the request: the promise rejects when the
  string cannot be cast, and resolves to \<open>null\<close> or to the document.
\<close>

datatype 'a lookup = CastError | Missing | Found 'a

definition findById :: "client \<Rightarrow> ('a \<Rightarrow> oid) \<Rightarrow> 'a list \<Rightarrow> string \<Rightarrow> 'a lookup" where
  "findById cl key xs i =
     (case cast_id cl i of
        None \<Rightarrow> CastError
      | Some j \<Rightarrow> (case find (\<lambda>x. key x = j) xs of None \<Rightarrow> Missing | Some x \<Rightarrow> Found x))"

text \<open>
  \<open>findById\<close> on a value of the body: an absent or null value is looked up as
  \<open>null\<close>, which no document has as its id.
\<close>

fun findByVal :: "client \<Rightarrow> ('a \<Rightarrow> oid) \<Rightarrow> 'a list \<Rightarrow> jsval \<Rightarrow> 'a lookup" where
  "findByVal cl key xs (Str i) = findById cl key xs i"
| "findByVal cl key xs v = Missing"

text \<open>
  \<open>populate(path)\<close> of a stored reference: the referenced document, or \<open>null\<close> when
  it is gone.
\<close>

definition populate :: "('a \<Rightarrow> oid) \<Rightarrow> 'a list \<Rightarrow> oid \<Rightarrow> 'a option" where
  "populate key xs i = find (\<lambda>x. key x = i) xs"

text \<open>\<open>doc.save()\<close> of the loaded document with id \<open>i\<close> writes it back in place.\<close>

fun save_doc :: "('a \<Rightarrow> oid) \<Rightarrow> oid \<Rightarrow> 'a \<Rightarrow> 'a list \<Rightarrow> 'a list" where
  "save_doc key i d [] = []"
| "save_doc key i d (x # xs) = (if key x = i then d # xs else x # save_doc key i d xs)"

text \<open>\<open>doc.deleteOne()\<close> removes the document with that \<open>_id\<close>.\<close>

fun delete_doc :: "('a \<Rightarrow> oid) \<Rightarrow> oid \<Rightarrow> 'a list \<Rightarrow> 'a list" where
  "delete_doc key i [] = []"
| "delete_doc key i (x # xs) = (if key x = i then xs else x # delete_doc key i xs)"

text \<open>
  \<open>.sort({ createdAt: -1 })\<close>: the documents by creation time, latest first. The
  store leaves the order of documents with equal times open; here it is the reverse of
  their order in the collection, and no property below depends on it.
\<close>

definition sort_desc :: "('a \<Rightarrow> nat) \<Rightarrow> 'a list \<Rightarrow> 'a list" where
  "sort_desc createdAt xs = rev (sort_key createdAt xs)"

section \<open>Responses\<close>

datatype json =
    Message string
  | Error string
  | ProjectJson project
  | ProjectsJson "project list"
  | BoardJson board
  | BoardsJson "board list"
  | TaskJson task
  | TasksJson "task list"
  | CommentJson comment
  | CommentsJson "comment list"
  | NotificationJson notification
  | NotificationsJson "notification list"

text \<open>A response is the status code with the JSON body; \<open>res.json\<close> alone is 200.\<close>

type_synonym response = "nat \<times> json"

section \<open>The access check of the board, task and comment routes\<close>

text \<open>
  \<open>Array.prototype.includes\<close> compares the searched value with each element by
  identity of value (Mongoose's arrays by \<open>==\<close>). The searched value is the caller's id,
  a string; an element that is a subdocument is an object and is equal to no string.
\<close>

datatype elem = EStr string | EDoc member

fun same_value :: "elem \<Rightarrow> string \<Rightarrow> bool" where
  "same_value (EStr t) s = (t = s)"
| "same_value (EDoc d) s = False"

definition array_includes :: "elem list \<Rightarrow> string \<Rightarrow> bool" where
  "array_includes xs s = list_ex (\<lambda>x. same_value x s) xs"

text \<open>
  The condition under which the routes answer 403 \<open>Not authorized\<close>:
  \<^verbatim>\<open>project.owner.toString() !== req.user.id && !project.members.includes(req.user.id)\<close>
\<close>

definition not_authorized :: "project \<Rightarrow> oid \<Rightarrow> bool" where
  "not_authorized project caller =
     (p_owner project \<noteq> caller \<and> \<not> array_includes (map EDoc (p_members project)) caller)"

section \<open>Errors\<close>

text \<open>
  The handlers of \<open>routes/projects.js\<close> end in
  \<open>catch (error) { res.status(500).json({ error: 'Server error' }) }\<close>, the others in
  \<open>catch (error) { res.status(500).json({ message: 'Server error' }) }\<close>: a thrown
  error or a rejected promise is this response, and the handler's writes before it
  stay.
\<close>

definition project_error :: response where
  "project_error = (500, Error ''Server error'')"

definition server_error :: response where
  "server_error = (500, Message ''Server error'')"

section \<open>\<open>routes/projects.js\<close>\<close>

text \<open>\<open>GET /api/projects\<close>: no \<open>sort\<close> is applied to the query.\<close>

definition get_projects :: "oid \<Rightarrow> store \<Rightarrow> response" where
  "get_projects caller s =
     (200, ProjectsJson (filter (\<lambda>p. p_owner p = caller \<or> caller \<in> set (map m_user (p_members p)))
        (projects s)))"

text \<open>\<open>User.findByIdAndUpdate(id, { $push: { projects: pid } })\<close>\<close>

fun push_project :: "oid \<Rightarrow> oid \<Rightarrow> user list \<Rightarrow> user list" where
  "push_project uid pid [] = []"
| "push_project uid pid (u # us) =
     (if u_id u = uid then u\<lparr>u_projects := u_projects u @ [pid]\<rparr> # us
      else u # push_project uid pid us)"

text \<open>
  \<open>POST /api/projects\<close>. The Project schema is not among the sources: \<open>status\<close> is
  left as the schema sets it (\<open>default_status\<close>), and creation is stamped with the
  clock.
\<close>

definition post_project ::
  "jsval \<Rightarrow> oid \<Rightarrow> jsval \<Rightarrow> jsval \<Rightarrow> string list option \<Rightarrow> oid \<Rightarrow> nat \<Rightarrow> store \<Rightarrow> response \<times> store" where
  "post_project default_status caller name description tags new_id now s =
     (let project = \<lparr>p_id = new_id, p_name = name, p_description = description,
            p_owner = caller, p_members = [\<lparr>m_user = caller, m_role = ''owner''\<rparr>],
            p_status = default_status, p_tags = tags, p_createdAt = now\<rparr>
      in ((201, ProjectJson project),
          s\<lparr>projects := projects s @ [project],
            users := push_project caller new_id (users s)\<rparr>))"

text \<open>\<open>GET /api/projects/:id\<close>\<close>

definition get_project :: "client \<Rightarrow> oid \<Rightarrow> string \<Rightarrow> store \<Rightarrow> response" where
  "get_project cl caller i s =
     (case findById cl p_id (projects s) i of
        CastError \<Rightarrow> project_error
      | Missing \<Rightarrow> (404, Error ''Project not found'')
      | Found project \<Rightarrow> (200, ProjectJson project))"

text \<open>
  \<open>PUT /api/projects/:id\<close>:
  \<open>findOneAndUpdate({ _id, owner }, { name, description, status, tags }, { new: true })\<close>.
  Whether a key whose value is \<open>undefined\<close> is dropped from the update or written as
  \<open>null\<close> depends on the version of the store's client; it is the parameter
  \<open>omit_undefined\<close>.
\<close>

definition set_field :: "bool \<Rightarrow> jsval \<Rightarrow> jsval \<Rightarrow> jsval" where
  "set_field omit_undefined v old =
     (if v = Undefined then (if omit_undefined then old else Null) else v)"

definition set_tags :: "bool \<Rightarrow> string list option \<Rightarrow> string list option \<Rightarrow> string list option" where
  "set_tags omit_undefined v old =
     (case v of None \<Rightarrow> (if omit_undefined then old else None) | Some ts \<Rightarrow> Some ts)"

definition update_project ::
  "bool \<Rightarrow> jsval \<Rightarrow> jsval \<Rightarrow> jsval \<Rightarrow> string list option \<Rightarrow> project \<Rightarrow> project" where
  "update_project omit_undefined name description status tags p =
     p\<lparr>p_name := set_field omit_undefined name (p_name p),
       p_description := set_field omit_undefined description (p_description p),
       p_status := set_field omit_undefined status (p_status p),
       p_tags := set_tags omit_undefined tags (p_tags p)\<rparr>"

fun findOneAndUpdate :: "(project \<Rightarrow> bool) \<Rightarrow> (project \<Rightarrow> project) \<Rightarrow> project list
    \<Rightarrow> project option \<times> project list" where
  "findOneAndUpdate q f [] = (None, [])"
| "findOneAndUpdate q f (p # ps) =
     (if q p then (Some (f p), f p # ps)
      else (case findOneAndUpdate q f ps of (r, ps') \<Rightarrow> (r, p # ps')))"

definition put_project ::
  "bool \<Rightarrow> client \<Rightarrow> oid \<Rightarrow> string \<Rightarrow> jsval \<Rightarrow> jsval \<Rightarrow> jsval \<Rightarrow> string list option \<Rightarrow> store
     \<Rightarrow> response \<times> store" where
  "put_project omit_undefined cl caller i name description status tags s =
     (case cast_id cl i of
        None \<Rightarrow> (project_error, s)
      | Some j \<Rightarrow>
          (case findOneAndUpdate (\<lambda>p. p_id p = j \<and> p_owner p = caller)
                  (update_project omit_undefined name description status tags) (projects s) of
             (None, ps) \<Rightarrow> ((404, Error ''Project not found or unauthorized''), s)
           | (Some project, ps) \<Rightarrow> ((200, ProjectJson project), s\<lparr>projects := ps\<rparr>)))"

text \<open>\<open>DELETE /api/projects/:id\<close>: \<open>findOneAndDelete({ _id, owner })\<close>\<close>

fun findOneAndDelete :: "(project \<Rightarrow> bool) \<Rightarrow> project list \<Rightarrow> project option \<times> project list" where
  "findOneAndDelete q [] = (None, [])"
| "findOneAndDelete q (p # ps) =
     (if q p then (Some p, ps)
      else (case findOneAndDelete q ps of (r, ps') \<Rightarrow> (r, p # ps')))"

definition delete_project :: "client \<Rightarrow> oid \<Rightarrow> string \<Rightarrow> store \<Rightarrow> response \<times> store" where
  "delete_project cl caller i s =
     (case cast_id cl i of
        None \<Rightarrow> (project_error, s)
      | Some j \<Rightarrow>
          (case findOneAndDelete (\<lambda>p. p_id p = j \<and> p_owner p = caller) (projects s) of
             (None, ps) \<Rightarrow> ((404, Error ''Project not found or unauthorized''), s)
           | (Some project, ps) \<Rightarrow> ((200, Message ''Project deleted''), s\<lparr>projects := ps\<rparr>)))"

section \<open>\<open>routes/boards.js\<close>\<close>

text \<open>
  \<open>board.save()\<close> validates the document against \<open>models/Board.js\<close>: \<open>name\<close> is
  required, which a string meets when it is not empty.
\<close>

definition valid_board :: "board \<Rightarrow> bool" where
  "valid_board b = truthy (b_name b)"

text \<open>
  \<open>POST /api/boards\<close>. The schema has no \<open>createdBy\<close> path, so the value passed
  for it is not stored. The bodies of the responses are the stored documents; the
  expansion of references by \<open>populate\<close> for display is not modelled beyond what
  decides the response: a populated reference that is gone is \<open>null\<close>, and
  \<open>populate('createdBy', ...)\<close> on a board names a path that \<open>models/Board.js\<close> does
  not declare.
\<close>

definition post_board ::
  "client \<Rightarrow> oid \<Rightarrow> jsval \<Rightarrow> jsval \<Rightarrow> jsval \<Rightarrow> oid \<Rightarrow> nat \<Rightarrow> store \<Rightarrow> response \<times> store" where
  "post_board cl caller name description projectId new_id now s =
     (case findByVal cl p_id (projects s) projectId of
        CastError \<Rightarrow> (server_error, s)
      | Missing \<Rightarrow> ((404, Message ''Project not found''), s)
      | Found project \<Rightarrow>
          if not_authorized project caller then ((403, Message ''Not authorized''), s)
          else
            (let board = \<lparr>b_id = new_id, b_name = trim_setter name,
                    b_description = description, b_project = p_id project,
                    b_createdAt = now\<rparr>
             in if valid_board board
                then ((201, BoardJson board), s\<lparr>boards := boards s @ [board]\<rparr>)
                else (server_error, s)))"

text \<open>
  \<open>GET /api/boards/project/:projectId\<close>. The query populates \<open>createdBy\<close> in the
  boards it finds; a strict client throws there.
\<close>

definition get_boards_of_project :: "client \<Rightarrow> oid \<Rightarrow> string \<Rightarrow> store \<Rightarrow> response" where
  "get_boards_of_project cl caller projectId s =
     (case findById cl p_id (projects s) projectId of
        CastError \<Rightarrow> server_error
      | Missing \<Rightarrow> (404, Message ''Project not found'')
      | Found project \<Rightarrow>
          if not_authorized project caller then (403, Message ''Not authorized'')
          else
            (let found = filter (\<lambda>b. b_project b = p_id project) (boards s)
             in if strict_populate cl \<and> found \<noteq> [] then server_error
                else (200, BoardsJson (sort_desc b_createdAt found))))"

text \<open>
  \<open>GET /api/boards/:id\<close>. The query populates \<open>createdBy\<close> and \<open>project\<close> in the
  board it finds; \<open>project.owner\<close> of a project that is gone throws.
\<close>

definition get_board :: "client \<Rightarrow> oid \<Rightarrow> string \<Rightarrow> store \<Rightarrow> response" where
  "get_board cl caller i s =
     (case findById cl b_id (boards s) i of
        CastError \<Rightarrow> server_error
      | Missing \<Rightarrow> (404, Message ''Board not found'')
      | Found board \<Rightarrow>
          if strict_populate cl then server_error
          else
            (case populate p_id (projects s) (b_project board) of
               None \<Rightarrow> server_error
             | Some project \<Rightarrow>
                 if not_authorized project caller then (403, Message ''Not authorized'')
                 else (200, BoardJson board)))"

text \<open>
  The field patch of \<open>PUT /api/boards/:id\<close>:
  \<^verbatim>\<open>board.name = name || board.name; board.description = description || board.description;\<close>
\<close>

definition patch_board :: "jsval \<Rightarrow> jsval \<Rightarrow> board \<Rightarrow> board" where
  "patch_board name description board =
     board\<lparr>b_name := trim_setter (js_or name (b_name board)),
           b_description := js_or description (b_description board)\<rparr>"

text \<open>\<open>PUT /api/boards/:id\<close>: only \<open>project\<close> is populated.\<close>

definition put_board ::
  "client \<Rightarrow> oid \<Rightarrow> string \<Rightarrow> jsval \<Rightarrow> jsval \<Rightarrow> store \<Rightarrow> response \<times> store" where
  "put_board cl caller i name description s =
     (case findById cl b_id (boards s) i of
        CastError \<Rightarrow> (server_error, s)
      | Missing \<Rightarrow> ((404, Message ''Board not found''), s)
      | Found board \<Rightarrow>
          (case populate p_id (projects s) (b_project board) of
             None \<Rightarrow> (server_error, s)
           | Some project \<Rightarrow>
               if not_authorized project caller then ((403, Message ''Not authorized''), s)
               else
                 (let board' = patch_board name description board
                  in if valid_board board'
                     then ((200, BoardJson board'),
                           s\<lparr>boards := save_doc b_id (b_id board) board' (boards s)\<rparr>)
                     else (server_error, s))))"

text \<open>\<open>DELETE /api/boards/:id\<close>\<close>

definition delete_board :: "client \<Rightarrow> oid \<Rightarrow> string \<Rightarrow> store \<Rightarrow> response \<times> store" where
  "delete_board cl caller i s =
     (case findById cl b_id (boards s) i of
        CastError \<Rightarrow> (server_error, s)
      | Missing \<Rightarrow> ((404, Message ''Board not found''), s)
      | Found board \<Rightarrow>
          (case populate p_id (projects s) (b_project board) of
             None \<Rightarrow> (server_error, s)
           | Some project \<Rightarrow>
               if p_owner project \<noteq> caller
               then ((403, Message ''Only project owner can delete boards''), s)
               else ((200, Message ''Board deleted successfully''),
                     s\<lparr>boards := delete_doc b_id (b_id board) (boards s)\<rparr>)))"

section \<open>\<open>routes/tasks.js\<close>\<close>

record task_body =
  q_title :: jsval
  q_description :: jsval
  q_priority :: jsval
  q_status :: jsval
  q_dueDate :: jsval
  q_boardId :: jsval
  q_projectId :: jsval
  q_assignedTo :: jsval

text \<open>
  The user a value names where the code guards it by truthiness before
  \<open>.toString()\<close>: \<open>v && v.toString()\<close>.
\<close>

fun assignee :: "jsval \<Rightarrow> oid option" where
  "assignee (Str a) = (if a = [] then None else Some a)"
| "assignee v = None"

text \<open>
  \<open>new Notification({ user, type, message, relatedTask, relatedProject })\<close>, unread
  and stamped with the clock.
\<close>

definition new_notification ::
  "oid \<Rightarrow> oid \<Rightarrow> string \<Rightarrow> string \<Rightarrow> oid \<Rightarrow> oid \<Rightarrow> nat \<Rightarrow> notification" where
  "new_notification nid recipient type message relatedTask relatedProject now =
     \<lparr>n_id = nid, n_user = recipient, n_type = type, n_message = message,
      n_relatedTask = relatedTask, n_relatedProject = relatedProject,
      n_read = False, n_createdAt = now\<rparr>"

definition notify :: "notification \<Rightarrow> store \<Rightarrow> store" where
  "notify n s = s\<lparr>notifications := notifications s @ [n]\<rparr>"

text \<open>
  \<open>POST /api/tasks\<close>. The task is saved first; the notification is created under
  \<open>assignedTo && assignedTo.toString() !== req.user.id\<close> and saved after it. The
  document read again for the response is the one just saved.
\<close>

definition post_task ::
  "client \<Rightarrow> oid \<Rightarrow> task_body \<Rightarrow> oid \<Rightarrow> oid \<Rightarrow> nat \<Rightarrow> store \<Rightarrow> response \<times> store" where
  "post_task cl caller body new_id nid now s =
     (case findByVal cl p_id (projects s) (q_projectId body) of
        CastError \<Rightarrow> (server_error, s)
      | Missing \<Rightarrow> ((404, Message ''Project not found''), s)
      | Found project \<Rightarrow>
          if not_authorized project caller then ((403, Message ''Not authorized''), s)
          else if truthy (q_boardId body)
                  \<and> findByVal cl b_id (boards s) (q_boardId body) = CastError
          then (server_error, s)
          else if truthy (q_boardId body)
                  \<and> findByVal cl b_id (boards s) (q_boardId body) = Missing
          then ((404, Message ''Board not found''), s)
          else
            (case task_schema cl
                    \<lparr>t_id = new_id, t_title = q_title body,
                     t_description = q_description body, t_priority = q_priority body,
                     t_status = q_status body, t_dueDate = q_dueDate body,
                     t_board = q_boardId body, t_project = template (q_projectId body),
                     t_createdBy = caller, t_assignedTo = q_assignedTo body,
                     t_createdAt = now\<rparr> of
               None \<Rightarrow> (server_error, s)
             | Some task \<Rightarrow>
                 (let s1 = s\<lparr>tasks := tasks s @ [task]\<rparr>
                  in case assignee (q_assignedTo body) of
                       None \<Rightarrow> ((201, TaskJson task), s1)
                     | Some a \<Rightarrow>
                         if a \<noteq> caller
                         then (case notification_schema cl
                                      (new_notification nid a ''task_assigned''
                                         (''You have been assigned to task: '' @
                                            template (q_title body))
                                         new_id (template (q_projectId body)) now) of
                                 None \<Rightarrow> (server_error, s1)
                               | Some n \<Rightarrow> ((201, TaskJson task), notify n s1))
                         else ((201, TaskJson task), s1))))"

text \<open>\<open>GET /api/tasks/project/:projectId\<close>\<close>

definition get_tasks_of_project :: "client \<Rightarrow> oid \<Rightarrow> string \<Rightarrow> store \<Rightarrow> response" where
  "get_tasks_of_project cl caller projectId s =
     (case findById cl p_id (projects s) projectId of
        CastError \<Rightarrow> server_error
      | Missing \<Rightarrow> (404, Message ''Project not found'')
      | Found project \<Rightarrow>
          if not_authorized project caller then (403, Message ''Not authorized'')
          else (200, TasksJson
                  (sort_desc t_createdAt
                     (filter (\<lambda>t. t_project t = p_id project) (tasks s)))))"

text \<open>\<open>GET /api/tasks/board/:boardId\<close>\<close>

definition get_tasks_of_board :: "client \<Rightarrow> oid \<Rightarrow> string \<Rightarrow> store \<Rightarrow> response" where
  "get_tasks_of_board cl caller boardId s =
     (case findById cl b_id (boards s) boardId of
        CastError \<Rightarrow> server_error
      | Missing \<Rightarrow> (404, Message ''Board not found'')
      | Found board \<Rightarrow>
          (case populate p_id (projects s) (b_project board) of
             None \<Rightarrow> server_error
           | Some project \<Rightarrow>
               if not_authorized project caller then (403, Message ''Not authorized'')
               else (200, TasksJson
                       (sort_desc t_createdAt
                          (filter (\<lambda>t. t_board t = Str (b_id board)) (tasks s))))))"

text \<open>\<open>GET /api/tasks/:id\<close>\<close>

definition get_task :: "client \<Rightarrow> oid \<Rightarrow> string \<Rightarrow> store \<Rightarrow> response" where
  "get_task cl caller i s =
     (case findById cl t_id (tasks s) i of
        CastError \<Rightarrow> server_error
      | Missing \<Rightarrow> (404, Message ''Task not found'')
      | Found task \<Rightarrow>
          (case populate p_id (projects s) (t_project task) of
             None \<Rightarrow> server_error
           | Some project \<Rightarrow>
               if not_authorized project caller then (403, Message ''Not authorized'')
               else (200, TaskJson task)))"

text \<open>
  The field patch of \<open>PUT /api/tasks/:id\<close>:
  \<^verbatim>\<open>
  task.title = title || task.title;
  task.description = description !== undefined ? description : task.description;
  task.priority = priority || task.priority;
  task.status = status || task.status;
  task.dueDate = dueDate !== undefined ? dueDate : task.dueDate;
  task.assignedTo = assignedTo !== undefined ? assignedTo : task.assignedTo;
  \<close>
\<close>

definition patch_task :: "task_body \<Rightarrow> task \<Rightarrow> task" where
  "patch_task body task =
     task\<lparr>t_title := js_or (q_title body) (t_title task),
          t_description := unless_undefined (q_description body) (t_description task),
          t_priority := js_or (q_priority body) (t_priority task),
          t_status := js_or (q_status body) (t_status task),
          t_dueDate := unless_undefined (q_dueDate body) (t_dueDate task),
          t_assignedTo := unless_undefined (q_assignedTo body) (t_assignedTo task)\<rparr>"

text \<open>
  The end of \<open>PUT /api/tasks/:id\<close>: the field patch, \<open>task.save()\<close>, and the
  response with the document read again, which is the one just saved.
\<close>

definition save_task :: "client \<Rightarrow> task_body \<Rightarrow> task \<Rightarrow> store \<Rightarrow> response \<times> store" where
  "save_task cl body task s =
     (case task_schema cl (patch_task body task) of
        None \<Rightarrow> (server_error, s)
      | Some task' \<Rightarrow>
          ((200, TaskJson task'), s\<lparr>tasks := save_doc t_id (t_id task) task' (tasks s)\<rparr>))"

text \<open>
  \<open>PUT /api/tasks/:id\<close>. The notification is created under
  \<^verbatim>\<open>assignedTo && task.assignedTo && assignedTo.toString() !== task.assignedTo.toString()\<close>
  and saved before the task is patched and saved.
\<close>

definition put_task ::
  "client \<Rightarrow> oid \<Rightarrow> string \<Rightarrow> task_body \<Rightarrow> oid \<Rightarrow> nat \<Rightarrow> store \<Rightarrow> response \<times> store" where
  "put_task cl caller i body nid now s =
     (case findById cl t_id (tasks s) i of
        CastError \<Rightarrow> (server_error, s)
      | Missing \<Rightarrow> ((404, Message ''Task not found''), s)
      | Found task \<Rightarrow>
          (case populate p_id (projects s) (t_project task) of
             None \<Rightarrow> (server_error, s)
           | Some project \<Rightarrow>
               if not_authorized project caller then ((403, Message ''Not authorized''), s)
               else
                 (case assignee (q_assignedTo body) of
                    None \<Rightarrow> save_task cl body task s
                  | Some a \<Rightarrow>
                      (case assignee (t_assignedTo task) of
                         None \<Rightarrow> save_task cl body task s
                       | Some b \<Rightarrow>
                           if a \<noteq> b
                           then (case notification_schema cl
                                        (new_notification nid a ''task_assigned''
                                           (''You have been assigned to task: '' @
                                              template (t_title task))
                                           (t_id task) (p_id project) now) of
                                   None \<Rightarrow> (server_error, s)
                                 | Some n \<Rightarrow> save_task cl body task (notify n s))
                           else save_task cl body task s))))"

text \<open>\<open>DELETE /api/tasks/:id\<close>\<close>

definition delete_task :: "client \<Rightarrow> oid \<Rightarrow> string \<Rightarrow> store \<Rightarrow> response \<times> store" where
  "delete_task cl caller i s =
     (case findById cl t_id (tasks s) i of
        CastError \<Rightarrow> (server_error, s)
      | Missing \<Rightarrow> ((404, Message ''Task not found''), s)
      | Found task \<Rightarrow>
          (case populate p_id (projects s) (t_project task) of
             None \<Rightarrow> (server_error, s)
           | Some project \<Rightarrow>
               if p_owner project \<noteq> caller
               then ((403, Message ''Only project owner can delete tasks''), s)
               else ((200, Message ''Task deleted successfully''),
                     s\<lparr>tasks := delete_doc t_id (t_id task) (tasks s)\<rparr>)))"

section \<open>\<open>routes/comments.js\<close>\<close>

text \<open>
  \<open>POST /api/comments\<close>. The comment is saved first; the notification is created
  under \<open>task.assignedTo && task.assignedTo.toString() !== req.user.id\<close> and saved
  after it.
\<close>

definition post_comment ::
  "client \<Rightarrow> oid \<Rightarrow> jsval \<Rightarrow> jsval \<Rightarrow> oid \<Rightarrow> oid \<Rightarrow> nat \<Rightarrow> store \<Rightarrow> response \<times> store" where
  "post_comment cl caller content taskId new_id nid now s =
     (case findByVal cl t_id (tasks s) taskId of
        CastError \<Rightarrow> (server_error, s)
      | Missing \<Rightarrow> ((404, Message ''Task not found''), s)
      | Found task \<Rightarrow>
          (case populate p_id (projects s) (t_project task) of
             None \<Rightarrow> (server_error, s)
           | Some project \<Rightarrow>
               if not_authorized project caller then ((403, Message ''Not authorized''), s)
               else
                 (case comment_schema cl
                         \<lparr>c_id = new_id, c_content = content, c_task = template taskId,
                          c_author = caller, c_createdAt = now\<rparr> of
                    None \<Rightarrow> (server_error, s)
                  | Some comment \<Rightarrow>
                      (let s1 = s\<lparr>comments := comments s @ [comment]\<rparr>
                       in case assignee (t_assignedTo task) of
                            None \<Rightarrow> ((201, CommentJson comment), s1)
                          | Some a \<Rightarrow>
                              if a \<noteq> caller
                              then (case notification_schema cl
                                           (new_notification nid a ''comment_added''
                                              (''New comment on task: '' @
                                                 template (t_title task))
                                              (template taskId) (p_id project) now) of
                                      None \<Rightarrow> (server_error, s1)
                                    | Some n \<Rightarrow> ((201, CommentJson comment), notify n s1))
                              else ((201, CommentJson comment), s1)))))"

text \<open>\<open>GET /api/comments/task/:taskId\<close>\<close>

definition get_comments_of_task :: "client \<Rightarrow> oid \<Rightarrow> string \<Rightarrow> store \<Rightarrow> response" where
  "get_comments_of_task cl caller taskId s =
     (case findById cl t_id (tasks s) taskId of
        CastError \<Rightarrow> server_error
      | Missing \<Rightarrow> (404, Message ''Task not found'')
      | Found task \<Rightarrow>
          (case populate p_id (projects s) (t_project task) of
             None \<Rightarrow> server_error
           | Some project \<Rightarrow>
               if not_authorized project caller then (403, Message ''Not authorized'')
               else (200, CommentsJson
                       (sort_desc c_createdAt
                          (filter (\<lambda>c. c_task c = t_id task) (comments s))))))"

text \<open>
  \<open>GET /api/comments/:id\<close>. \<open>comment.task.project\<close> after the nested \<open>populate\<close>:
  reading \<open>project\<close> of a task that is gone throws, and so does \<open>project.owner\<close> of
  a project that is gone.
\<close>

definition get_comment :: "client \<Rightarrow> oid \<Rightarrow> string \<Rightarrow> store \<Rightarrow> response" where
  "get_comment cl caller i s =
     (case findById cl c_id (comments s) i of
        CastError \<Rightarrow> server_error
      | Missing \<Rightarrow> (404, Message ''Comment not found'')
      | Found comment \<Rightarrow>
          (case populate t_id (tasks s) (c_task comment) of
             None \<Rightarrow> server_error
           | Some task \<Rightarrow>
               (case populate p_id (projects s) (t_project task) of
                  None \<Rightarrow> server_error
                | Some project \<Rightarrow>
                    if not_authorized project caller then (403, Message ''Not authorized'')
                    else (200, CommentJson comment))))"

text \<open>
  The field patch of \<open>PUT /api/comments/:id\<close>:
  \<open>comment.content = content || comment.content\<close>
\<close>

definition patch_comment :: "jsval \<Rightarrow> comment \<Rightarrow> comment" where
  "patch_comment content comment = comment\<lparr>c_content := js_or content (c_content comment)\<rparr>"

text \<open>\<open>PUT /api/comments/:id\<close>: the populated task is not read.\<close>

definition put_comment :: "client \<Rightarrow> oid \<Rightarrow> string \<Rightarrow> jsval \<Rightarrow> store \<Rightarrow> response \<times> store" where
  "put_comment cl caller i content s =
     (case findById cl c_id (comments s) i of
        CastError \<Rightarrow> (server_error, s)
      | Missing \<Rightarrow> ((404, Message ''Comment not found''), s)
      | Found comment \<Rightarrow>
          if c_author comment \<noteq> caller
          then ((403, Message ''Only comment author can update it''), s)
          else
            (case comment_schema cl (patch_comment content comment) of
               None \<Rightarrow> (server_error, s)
             | Some comment' \<Rightarrow>
                 ((200, CommentJson comment'),
                  s\<lparr>comments := save_doc c_id (c_id comment) comment' (comments s)\<rparr>)))"

text \<open>
  \<open>DELETE /api/comments/:id\<close>. \<open>const project = comment.task.project\<close> throws when
  the task is gone. In
  \<^verbatim>\<open>comment.author.toString() !== req.user.id && project.owner.toString() !== req.user.id\<close>
  the right operand is evaluated only when the caller is not the author, so a project
  that is gone throws only then.
\<close>

definition delete_comment :: "client \<Rightarrow> oid \<Rightarrow> string \<Rightarrow> store \<Rightarrow> response \<times> store" where
  "delete_comment cl caller i s =
     (case findById cl c_id (comments s) i of
        CastError \<Rightarrow> (server_error, s)
      | Missing \<Rightarrow> ((404, Message ''Comment not found''), s)
      | Found comment \<Rightarrow>
          (case populate t_id (tasks s) (c_task comment) of
             None \<Rightarrow> (server_error, s)
           | Some task \<Rightarrow>
               if c_author comment \<noteq> caller
               then (case populate p_id (projects s) (t_project task) of
                       None \<Rightarrow> (server_error, s)
                     | Some project \<Rightarrow>
                         if p_owner project \<noteq> caller
                         then ((403, Message ''Not authorized to delete this comment''), s)
                         else ((200, Message ''Comment deleted successfully''),
                               s\<lparr>comments := delete_doc c_id (c_id comment) (comments s)\<rparr>))
               else ((200, Message ''Comment deleted successfully''),
                     s\<lparr>comments := delete_doc c_id (c_id comment) (comments s)\<rparr>)))"

section \<open>\<open>routes/notifications.js\<close>\<close>

text \<open>\<open>GET /api/notifications\<close>: \<open>.sort({ createdAt: -1 }).limit(50)\<close>\<close>

definition get_notifications :: "oid \<Rightarrow> store \<Rightarrow> response" where
  "get_notifications caller s =
     (200, NotificationsJson
        (take 50 (sort_desc n_createdAt (filter (\<lambda>n. n_user n = caller) (notifications s)))))"

text \<open>\<open>GET /api/notifications/unread\<close>\<close>

definition get_unread_notifications :: "oid \<Rightarrow> store \<Rightarrow> response" where
  "get_unread_notifications caller s =
     (200, NotificationsJson
        (sort_desc n_createdAt
           (filter (\<lambda>n. n_user n = caller \<and> n_read n = False) (notifications s))))"

text \<open>\<open>GET /api/notifications/:id\<close>\<close>

definition get_notification :: "client \<Rightarrow> oid \<Rightarrow> string \<Rightarrow> store \<Rightarrow> response" where
  "get_notification cl caller i s =
     (case findById cl n_id (notifications s) i of
        CastError \<Rightarrow> server_error
      | Missing \<Rightarrow> (404, Message ''Notification not found'')
      | Found notification \<Rightarrow>
          if n_user notification \<noteq> caller then (403, Message ''Not authorized'')
          else (200, NotificationJson notification))"

text \<open>\<open>PUT /api/notifications/:id/read\<close>\<close>

definition put_notification_read ::
  "client \<Rightarrow> oid \<Rightarrow> string \<Rightarrow> store \<Rightarrow> response \<times> store" where
  "put_notification_read cl caller i s =
     (case findById cl n_id (notifications s) i of
        CastError \<Rightarrow> (server_error, s)
      | Missing \<Rightarrow> ((404, Message ''Notification not found''), s)
      | Found notification \<Rightarrow>
          if n_user notification \<noteq> caller then ((403, Message ''Not authorized''), s)
          else
            (case notification_schema cl (notification\<lparr>n_read := True\<rparr>) of
               None \<Rightarrow> (server_error, s)
             | Some notification' \<Rightarrow>
                 ((200, NotificationJson notification'),
                  s\<lparr>notifications :=
                      save_doc n_id (n_id notification) notification' (notifications s)\<rparr>)))"

text \<open>\<open>DELETE /api/notifications/:id\<close>\<close>

definition delete_notification ::
  "client \<Rightarrow> oid \<Rightarrow> string \<Rightarrow> store \<Rightarrow> response \<times> store" where
  "delete_notification cl caller i s =
     (case findById cl n_id (notifications s) i of
        CastError \<Rightarrow> (server_error, s)
      | Missing \<Rightarrow> ((404, Message ''Notification not found''), s)
      | Found notification \<Rightarrow>
          if n_user notification \<noteq> caller then ((403, Message ''Not authorized''), s)
          else ((200, Message ''Notification deleted successfully''),
                s\<lparr>notifications := delete_doc n_id (n_id notification) (notifications s)\<rparr>))"

section \<open>The Socket.IO handlers of \<open>server.js\<close>\<close>

text \<open>
  The server's state is which socket has joined which room. \<open>socket.join(room)\<close> adds
  the socket to the room; \<open>io.to(room).emit(event, data)\<close> sends \<open>data\<close> under
  \<open>event\<close> to every socket of the room. A delivery is the receiving socket, the event
  name and the payload.
\<close>

type_synonym socket_id = nat

type_synonym rooms = "(socket_id \<times> string) list"

record payload =
  d_projectId :: jsval
  d_rest :: string

type_synonym delivery = "socket_id \<times> string \<times> payload"

definition room_of :: "jsval \<Rightarrow> string" where
  "room_of projectId = ''project-'' @ template projectId"

definition socket_join :: "socket_id \<Rightarrow> string \<Rightarrow> rooms \<Rightarrow> rooms" where
  "socket_join sock room r = (if (sock, room) \<in> set r then r else r @ [(sock, room)])"

definition io_to_emit :: "string \<Rightarrow> string \<Rightarrow> payload \<Rightarrow> rooms \<Rightarrow> delivery list" where
  "io_to_emit room event data r =
     map (\<lambda>(sock, _). (sock, event, data)) (filter (\<lambda>(_, room'). room' = room) r)"

text \<open>\<open>socket.on('join-project', ...)\<close>\<close>

definition on_join_project :: "socket_id \<Rightarrow> jsval \<Rightarrow> rooms \<Rightarrow> rooms" where
  "on_join_project sock projectId r = socket_join sock (room_of projectId) r"

text \<open>\<open>socket.on('task-updated', ...)\<close>\<close>

definition on_task_updated :: "socket_id \<Rightarrow> payload \<Rightarrow> rooms \<Rightarrow> delivery list" where
  "on_task_updated sock data r = io_to_emit (room_of (d_projectId data)) ''task-update'' data r"

text \<open>\<open>socket.on('comment-added', ...)\<close>\<close>

definition on_comment_added :: "socket_id \<Rightarrow> payload \<Rightarrow> rooms \<Rightarrow> delivery list" where
  "on_comment_added sock data r = io_to_emit (room_of (d_projectId data)) ''new-comment'' data r"

text \<open>
  \<open>socket.on('disconnect', ...)\<close> only logs; the library takes the socket out of its
  rooms.
\<close>

definition on_disconnect :: "socket_id \<Rightarrow> rooms \<Rightarrow> rooms" where
  "on_disconnect sock r = filter (\<lambda>(sock', _). sock' \<noteq> sock) r"

section \<open>Histories of project requests\<close>

text \<open>
  The requests of \<open>routes/projects.js\<close> that write, and the store after a sequence of
  them. \<open>default_status\<close> and \<open>omit_undefined\<close> are the two settings of the project
  routes that the sources leave open.
\<close>

datatype project_request =
    PostProject oid jsval jsval "string list option" oid nat
  | PutProject oid string jsval jsval jsval "string list option"
  | DeleteProject oid string

fun handle :: "jsval \<Rightarrow> bool \<Rightarrow> client \<Rightarrow> project_request \<Rightarrow> store \<Rightarrow> store" where
  "handle default_status omit_undefined cl (PostProject caller name description tags new_id now) s =
     snd (post_project default_status caller name description tags new_id now s)"
| "handle default_status omit_undefined cl (PutProject caller i name description status tags) s =
     snd (put_project omit_undefined cl caller i name description status tags s)"
| "handle default_status omit_undefined cl (DeleteProject caller i) s =
     snd (delete_project cl caller i s)"

fun run :: "jsval \<Rightarrow> bool \<Rightarrow> client \<Rightarrow> project_request list \<Rightarrow> store \<Rightarrow> store" where
  "run default_status omit_undefined cl [] s = s"
| "run default_status omit_undefined cl (r # rs) s =
     run default_status omit_undefined cl rs (handle default_status omit_undefined cl r s)"

text \<open>The owner is the only member, with the role \<open>owner\<close>.\<close>

definition owner_member :: "project \<Rightarrow> bool" where
  "owner_member p = (p_members p = [\<lparr>m_user = p_owner p, m_role = ''owner''\<rparr>])"

section \<open>Histories of socket events\<close>

text \<open>The events that change which socket is in which room, and the rooms after them.\<close>

datatype socket_event = JoinProject socket_id jsval | Disconnect socket_id

fun on_event :: "socket_event \<Rightarrow> rooms \<Rightarrow> rooms" where
  "on_event (JoinProject sock projectId) r = on_join_project sock projectId r"
| "on_event (Disconnect sock) r = on_disconnect sock r"

fun rooms_after :: "socket_event list \<Rightarrow> rooms \<Rightarrow> rooms" where
  "rooms_after [] r = r"
| "rooms_after (e # es) r = rooms_after es (on_event e r)"

section \<open>Reading a response\<close>

definition status :: "response \<Rightarrow> nat" where
  "status r = fst r"

section \<open>Example data\<close>

text \<open>
  An example of a client, with which the handlers are evaluated below; the properties
  themselves are proved for every client. It casts the 24 hexadecimal digits of an
  identifier, in lower case. Its Task schema requires a title, takes only identifiers
  as references and only the characters of a timestamp as a due date, and stores an
  empty due date as null; its Comment schema requires a content; its Notification
  schema requires the recipient to be an identifier.
\<close>

definition hex_digit :: "char \<Rightarrow> bool" where
  "hex_digit c = (c \<in> set ''0123456789abcdefABCDEF'')"

definition lower_hex :: "char \<Rightarrow> char" where
  "lower_hex c = (if c \<in> set ''ABCDEF'' then char_of (of_char c + (32::nat)) else c)"

definition demo_cast :: "string \<Rightarrow> oid option" where
  "demo_cast s =
     (if length s = 24 \<and> list_all hex_digit s then Some (map lower_hex s) else None)"

fun is_ref :: "jsval \<Rightarrow> bool" where
  "is_ref (Str r) = (demo_cast r \<noteq> None)"
| "is_ref v = True"

fun is_date :: "jsval \<Rightarrow> bool" where
  "is_date (Str d) = list_all (\<lambda>c. c \<in> set ''0123456789-:.TZ'') d"
| "is_date v = True"

definition demo_task_schema :: "task \<Rightarrow> task option" where
  "demo_task_schema t =
     (if truthy (t_title t) \<and> is_ref (t_assignedTo t) \<and> is_ref (t_board t)
         \<and> demo_cast (t_project t) \<noteq> None \<and> is_date (t_dueDate t)
      then Some (t\<lparr>t_dueDate := (if t_dueDate t = Str [] then Null else t_dueDate t)\<rparr>)
      else None)"

definition demo_comment_schema :: "comment \<Rightarrow> comment option" where
  "demo_comment_schema c =
     (if truthy (c_content c) \<and> demo_cast (c_task c) \<noteq> None then Some c else None)"

definition demo_notification_schema :: "notification \<Rightarrow> notification option" where
  "demo_notification_schema n = (if demo_cast (n_user n) \<noteq> None then Some n else None)"

definition demo_client :: "bool \<Rightarrow> client" where
  "demo_client strict =
     \<lparr>cast_id = demo_cast, strict_populate = strict, task_schema = demo_task_schema,
      comment_schema = demo_comment_schema,
      notification_schema = demo_notification_schema\<rparr>"

text \<open>The identifiers of three users and of the documents of the example.\<close>

abbreviation alice :: oid where
  "alice \<equiv> ''a11ce0000000000000000001''"

abbreviation bob :: oid where
  "bob \<equiv> ''b0b000000000000000000002''"

abbreviation carol :: oid where
  "carol \<equiv> ''ca4010000000000000000003''"

abbreviation p1 :: oid where
  "p1 \<equiv> ''100000000000000000000001''"

abbreviation p2 :: oid where
  "p2 \<equiv> ''100000000000000000000002''"

abbreviation b1 :: oid where
  "b1 \<equiv> ''200000000000000000000001''"

abbreviation b2 :: oid where
  "b2 \<equiv> ''200000000000000000000002''"

abbreviation t1 :: oid where
  "t1 \<equiv> ''300000000000000000000001''"

abbreviation t2 :: oid where
  "t2 \<equiv> ''300000000000000000000002''"

abbreviation t3 :: oid where
  "t3 \<equiv> ''300000000000000000000003''"

abbreviation t4 :: oid where
  "t4 \<equiv> ''300000000000000000000004''"

abbreviation c1 :: oid where
  "c1 \<equiv> ''400000000000000000000001''"

abbreviation c2 :: oid where
  "c2 \<equiv> ''400000000000000000000002''"

abbreviation n1 :: oid where
  "n1 \<equiv> ''500000000000000000000001''"

abbreviation n2 :: oid where
  "n2 \<equiv> ''500000000000000000000002''"

abbreviation n9 :: oid where
  "n9 \<equiv> ''500000000000000000000009''"

text \<open>
  A store: \<open>alice\<close> owns two projects, \<open>bob\<close> is a member of the second one only,
  \<open>carol\<close> is a member of neither.
\<close>

definition demo_project :: project where
  "demo_project = \<lparr>p_id = p1, p_name = Str ''Demo'', p_description = Undefined,
     p_owner = alice, p_members = [\<lparr>m_user = alice, m_role = ''owner''\<rparr>],
     p_status = Str ''active'', p_tags = None, p_createdAt = 1\<rparr>"

definition team_project :: project where
  "team_project = \<lparr>p_id = p2, p_name = Str ''Team'', p_description = Undefined,
     p_owner = alice,
     p_members = [\<lparr>m_user = alice, m_role = ''owner''\<rparr>,
                  \<lparr>m_user = bob, m_role = ''member''\<rparr>],
     p_status = Str ''active'', p_tags = None, p_createdAt = 2\<rparr>"

definition demo_board :: board where
  "demo_board = \<lparr>b_id = b1, b_name = Str ''Sprint 1'', b_description = Str ''Main board'',
     b_project = p1, b_createdAt = 3\<rparr>"

definition team_board :: board where
  "team_board = \<lparr>b_id = b2, b_name = Str ''Backlog'', b_description = Undefined,
     b_project = p2, b_createdAt = 4\<rparr>"

definition demo_task :: task where
  "demo_task = \<lparr>t_id = t1, t_title = Str ''Design login'', t_description = Str ''Create UI'',
     t_priority = Str ''high'', t_status = Str ''todo'', t_dueDate = Null,
     t_board = Str b1, t_project = p1, t_createdBy = alice,
     t_assignedTo = Str bob, t_createdAt = 5\<rparr>"

definition open_task :: task where
  "open_task = \<lparr>t_id = t2, t_title = Str ''Write tests'', t_description = Undefined,
     t_priority = Str ''low'', t_status = Str ''todo'', t_dueDate = Undefined,
     t_board = Undefined, t_project = p1, t_createdBy = alice,
     t_assignedTo = Undefined, t_createdAt = 6\<rparr>"

definition team_task :: task where
  "team_task = \<lparr>t_id = t3, t_title = Str ''Plan'', t_description = Undefined,
     t_priority = Str ''low'', t_status = Str ''todo'', t_dueDate = Undefined,
     t_board = Str b2, t_project = p2, t_createdBy = alice,
     t_assignedTo = Str bob, t_createdAt = 7\<rparr>"

definition demo_comment :: comment where
  "demo_comment = \<lparr>c_id = c1, c_content = Str ''Looks good'', c_task = t1,
     c_author = bob, c_createdAt = 8\<rparr>"

definition demo_notification :: notification where
  "demo_notification = \<lparr>n_id = n1, n_user = bob, n_type = ''task_assigned'',
     n_message = ''You have been assigned to task: Design login'', n_relatedTask = t1,
     n_relatedProject = p1, n_read = False, n_createdAt = 5\<rparr>"

definition demo_store :: store where
  "demo_store = \<lparr>users = [], projects = [demo_project, team_project],
     boards = [demo_board, team_board], tasks = [demo_task, open_task, team_task],
     comments = [demo_comment], notifications = [demo_notification]\<rparr>"


text \<open>
  \<open>alice\<close> creates the project \<open>Demo\<close>, renames it, and \<open>bob\<close> tries to update it.
\<close>

definition demo_requests :: "project_request list" where
  "demo_requests =
     [PostProject alice (Str ''Demo'') Undefined None p1 1,
      PutProject alice p1 (Str ''Demo 2'') Undefined Undefined None,
      PutProject bob p1 (Str ''Mine'') Undefined Undefined None]"

text \<open>\<open>alice\<close> creates two projects, one after the other.\<close>

definition two_projects :: "project_request list" where
  "two_projects =
     [PostProject alice (Str ''First'') Undefined None p1 1,
      PostProject alice (Str ''Second'') Undefined None p2 2]"

text \<open>A body that holds nothing, and bodies that supply single fields.\<close>

definition no_fields :: task_body where
  "no_fields = \<lparr>q_title = Undefined, q_description = Undefined, q_priority = Undefined,
     q_status = Undefined, q_dueDate = Undefined, q_boardId = Undefined,
     q_projectId = Undefined, q_assignedTo = Undefined\<rparr>"

definition cleared_fields :: task_body where
  "cleared_fields = no_fields\<lparr>q_title := Str [], q_priority := Null, q_description := Str [],
     q_assignedTo := Null\<rparr>"

text \<open>
  Sockets 1 and 2 join the first project, socket 3 the second; the payload is about the
  first project.
\<close>

definition demo_events :: "socket_event list" where
  "demo_events = [JoinProject 1 (Str ''p1''), JoinProject 2 (Str ''p1''), JoinProject 3 (Str ''p2'')]"

definition demo_payload :: payload where
  "demo_payload = \<lparr>d_projectId = Str ''p1'', d_rest = ''task t1 moved to done''\<rparr>"

section \<open>Properties\<close>

subsection \<open>The example client\<close>

lemma demo_client_fields [simp]:
  "cast_id (demo_client strict) = demo_cast"
  "strict_populate (demo_client strict) = strict"
  "task_schema (demo_client strict) = demo_task_schema"
  "comment_schema (demo_client strict) = demo_comment_schema"
  "notification_schema (demo_client strict) = demo_notification_schema"
  by (simp_all add: demo_client_def)

lemma demo_cast_ids [simp]:
  "demo_cast alice = Some alice" "demo_cast bob = Some bob" "demo_cast carol = Some carol"
  "demo_cast p1 = Some p1" "demo_cast p2 = Some p2"
  "demo_cast b1 = Some b1" "demo_cast b2 = Some b2"
  "demo_cast t1 = Some t1" "demo_cast t2 = Some t2" "demo_cast t3 = Some t3"
  "demo_cast t4 = Some t4"
  "demo_cast c1 = Some c1" "demo_cast c2 = Some c2"
  "demo_cast n1 = Some n1" "demo_cast n2 = Some n2" "demo_cast n9 = Some n9"
  "demo_cast ''not-an-id'' = None" "demo_cast [] = None"
  by (simp_all add: demo_cast_def hex_digit_def lower_hex_def)

subsection \<open>Reading one project\<close>

text \<open>
  Claim C10. For every caller and every existing project \<open>P\<close>, \<open>GET /api/projects/:id\<close>
  answers 200 with \<open>P\<close>, whether or not the caller is the owner or a member of \<open>P\<close>: the
  handler has no access check (the caller does not occur in the answer).
\<close>

theorem get_project_any_caller:
  assumes "findById cl p_id (projects s) i = Found P"
  shows "get_project cl caller i s = (200, ProjectJson P)"
  using assms by (simp add: get_project_def)

text \<open>
  At a project of \<open>alice\<close>, \<open>bob\<close> fails the access check of the board routes and still
  reads the project.
\<close>

theorem get_project_any_caller_witness:
  "not_authorized demo_project bob
   \<and> get_boards_of_project (demo_client False) bob p1 demo_store = (403, Message ''Not authorized'')
   \<and> get_project (demo_client False) bob p1 demo_store = (200, ProjectJson demo_project)
   \<and> get_project (demo_client False) bob p1 demo_store
       = get_project (demo_client False) alice p1 demo_store"
proof -
  have found: "findById (demo_client False) p_id (projects demo_store) p1 = Found demo_project"
    by (simp add: findById_def demo_store_def demo_project_def)
  have denied: "not_authorized demo_project bob"
    by (simp add: not_authorized_def array_includes_def demo_project_def)
  have "get_boards_of_project (demo_client False) bob p1 demo_store
      = (403, Message ''Not authorized'')"
    using found denied by (simp add: get_boards_of_project_def)
  with denied get_project_any_caller [OF found, of bob]
    get_project_any_caller [OF found, of alice]
  show ?thesis by simp
qed

subsection \<open>The owner of a project is a member of it\<close>

lemma findOneAndUpdate_keeps:
  "findOneAndUpdate q (update_project ou n d st tg) ps = (r, ps') \<Longrightarrow>
   map p_owner ps' = map p_owner ps \<and> map p_members ps' = map p_members ps"
  by (induction ps arbitrary: r ps') (auto simp: update_project_def split: if_splits prod.splits)

lemma findOneAndDelete_subset:
  "findOneAndDelete q ps = (r, ps') \<Longrightarrow> set ps' \<subseteq> set ps"
  by (induction ps arbitrary: r ps') (auto split: if_splits prod.splits)

lemma put_project_keeps:
  "map p_owner (projects (snd (put_project ou cl caller i n d st tg s))) = map p_owner (projects s)
   \<and> map p_members (projects (snd (put_project ou cl caller i n d st tg s)))
       = map p_members (projects s)"
proof (cases "cast_id cl i")
  case None
  then show ?thesis by (simp add: put_project_def)
next
  case (Some j)
  obtain r ps' where f: "findOneAndUpdate (\<lambda>p. p_id p = j \<and> p_owner p = caller)
      (update_project ou n d st tg) (projects s) = (r, ps')"
    by (cases "findOneAndUpdate (\<lambda>p. p_id p = j \<and> p_owner p = caller)
      (update_project ou n d st tg) (projects s)")
  from findOneAndUpdate_keeps [OF f] f Some show ?thesis
    by (simp add: put_project_def split: option.splits)
qed

lemma owner_member_transfer:
  "map p_owner ps' = map p_owner ps \<Longrightarrow> map p_members ps' = map p_members ps \<Longrightarrow>
   list_all owner_member ps \<Longrightarrow> list_all owner_member ps'"
proof (induction ps arbitrary: ps')
  case Nil
  then show ?case by simp
next
  case (Cons a ps)
  then show ?case by (cases ps') (auto simp: owner_member_def)
qed

lemma delete_project_owner_member:
  assumes inv: "list_all owner_member (projects s)"
  shows "list_all owner_member (projects (snd (delete_project cl caller i s)))"
proof (cases "cast_id cl i")
  case None
  with inv show ?thesis by (simp add: delete_project_def)
next
  case (Some j)
  obtain r' ps' where f:
    "findOneAndDelete (\<lambda>p. p_id p = j \<and> p_owner p = caller) (projects s) = (r', ps')"
    by (cases "findOneAndDelete (\<lambda>p. p_id p = j \<and> p_owner p = caller) (projects s)")
  from findOneAndDelete_subset [OF f] inv have "list_all owner_member ps'"
    by (auto simp: list_all_iff)
  with Some f inv show ?thesis
    by (simp add: delete_project_def split: option.splits)
qed

lemma handle_owner_member:
  assumes inv: "list_all owner_member (projects s)"
  shows "list_all owner_member (projects (handle ds ou cl r s))"
proof (cases r)
  case (PostProject caller name description tags new_id now)
  with inv show ?thesis
    by (simp add: post_project_def Let_def owner_member_def)
next
  case (PutProject caller i name description status tags)
  with inv put_project_keeps [of ou cl caller i name description status tags s] show ?thesis
    by (simp add: owner_member_transfer)
next
  case (DeleteProject caller i)
  with delete_project_owner_member [OF inv] show ?thesis by simp
qed

lemma run_owner_member:
  "list_all owner_member (projects s) \<Longrightarrow> list_all owner_member (projects (run ds ou cl rs s))"
  by (induction rs arbitrary: s) (auto simp: handle_owner_member)

text \<open>
  Claim C7. In every store reached from the empty one through the project handlers,
  each project's owner is in its members list with the role \<open>owner\<close> (the members
  list is that one entry). Creating a project as \<open>A\<close> answers 201 with a project whose
  owner is \<open>A\<close> and whose members list is exactly \<open>[{user: A, role: "owner"}]\<close>, and
  the update handler changes no project's owner or members.
\<close>

theorem project_owner_is_member:
  "(\<forall>p \<in> set (projects (run ds ou cl rs empty_store)).
      \<lparr>m_user = p_owner p, m_role = ''owner''\<rparr> \<in> set (p_members p) \<and> owner_member p)
   \<and> (\<exists>P. post_project ds A name description tags new_id now s
            = ((201, ProjectJson P),
               s\<lparr>projects := projects s @ [P], users := push_project A new_id (users s)\<rparr>)
          \<and> p_owner P = A \<and> p_members P = [\<lparr>m_user = A, m_role = ''owner''\<rparr>])
   \<and> map p_owner (projects (snd (put_project ou cl caller i name' description' status' tags' s)))
       = map p_owner (projects s)
   \<and> map p_members (projects (snd (put_project ou cl caller i name' description' status' tags' s)))
       = map p_members (projects s)"
proof -
  have "list_all owner_member (projects (run ds ou cl rs empty_store))"
    by (rule run_owner_member) (simp add: empty_store_def)
  then have reach: "\<forall>p \<in> set (projects (run ds ou cl rs empty_store)).
      \<lparr>m_user = p_owner p, m_role = ''owner''\<rparr> \<in> set (p_members p) \<and> owner_member p"
    by (auto simp: list_all_iff owner_member_def)
  have create: "\<exists>P. post_project ds A name description tags new_id now s
            = ((201, ProjectJson P),
               s\<lparr>projects := projects s @ [P], users := push_project A new_id (users s)\<rparr>)
          \<and> p_owner P = A \<and> p_members P = [\<lparr>m_user = A, m_role = ''owner''\<rparr>]"
    by (simp add: post_project_def Let_def)
  from reach create put_project_keeps [of ou cl caller i name' description' status' tags' s]
  show ?thesis by blast
qed

theorem project_owner_is_member_witness:
  "map p_owner (projects (run (Str ''active'') True (demo_client False) demo_requests empty_store))
     = [alice]
   \<and> map p_name (projects (run (Str ''active'') True (demo_client False) demo_requests empty_store))
     = [Str ''Demo 2'']
   \<and> list_all (\<lambda>p. \<lparr>m_user = p_owner p, m_role = ''owner''\<rparr> \<in> set (p_members p))
        (projects (run (Str ''active'') True (demo_client False) demo_requests empty_store))"
proof -
  have "map p_owner (projects (run (Str ''active'') True (demo_client False) demo_requests
      empty_store)) = [alice]"
    by (simp add: demo_requests_def empty_store_def post_project_def put_project_def
        update_project_def set_field_def set_tags_def Let_def)
  moreover
  have "map p_name (projects (run (Str ''active'') True (demo_client False) demo_requests
      empty_store)) = [Str ''Demo 2'']"
    by (simp add: demo_requests_def empty_store_def post_project_def put_project_def
        update_project_def set_field_def set_tags_def Let_def)
  ultimately show ?thesis
    using project_owner_is_member [of "Str ''active''" True "demo_client False" demo_requests]
    by (simp add: list_all_iff)
qed

subsection \<open>Access of a listed member\<close>

lemma not_authorized_iff: "not_authorized project caller = (p_owner project \<noteq> caller)"
  by (simp add: not_authorized_def array_includes_def list_ex_iff)

text \<open>
  Claim C1 says that a handler of a project's boards, tasks or comments passes its
  access check if and only if the caller is the project's owner or is listed in its
  members. The code refuses a listed member who is not the owner: \<open>bob\<close> is a member
  of the second project, the project listing (which queries \<open>members.user\<close>) returns
  it to him, and listing its boards, reading its task, creating a task in it and
  commenting on its task are all answered 403.
\<close>

theorem listed_member_is_refused:
  "\<lparr>m_user = bob, m_role = ''member''\<rparr> \<in> set (p_members team_project)
   \<and> get_projects bob demo_store = (200, ProjectsJson [team_project])
   \<and> get_boards_of_project (demo_client strict) bob p2 demo_store
        = (403, Message ''Not authorized'')
   \<and> get_task (demo_client strict) bob t3 demo_store = (403, Message ''Not authorized'')
   \<and> post_task (demo_client strict) bob
        (no_fields\<lparr>q_title := Str ''Review'', q_projectId := Str p2\<rparr>)
        t4 n2 9 demo_store = ((403, Message ''Not authorized''), demo_store)
   \<and> post_comment (demo_client strict) bob (Str ''On it'') (Str t3) c2 n2 9 demo_store
        = ((403, Message ''Not authorized''), demo_store)"
  by (simp add: get_projects_def get_boards_of_project_def get_task_def post_task_def
      post_comment_def findById_def populate_def demo_store_def demo_project_def team_project_def
      demo_task_def open_task_def team_task_def no_fields_def
      not_authorized_def array_includes_def)

subsection \<open>Lookups and writes of the store\<close>



lemma save_task_cases:
  "(task_schema cl (patch_task body task) = None \<longrightarrow>
      save_task cl body task s = (server_error, s))
   \<and> (task_schema cl (patch_task body task) = Some task' \<longrightarrow>
      save_task cl body task s =
        ((200, TaskJson task'), s\<lparr>tasks := save_doc t_id (t_id task) task' (tasks s)\<rparr>))"
  by (simp add: save_task_def)




subsection \<open>Partial updates\<close>

lemma dropWhile_rev_prefix:
  assumes "xs = [] \<or> \<not> P (hd xs)"
  shows "dropWhile P (rev (dropWhile P (rev xs))) = rev (dropWhile P (rev xs))"
proof (cases "dropWhile P (rev xs) = []")
  case True
  show ?thesis unfolding True by simp
next
  case False
  have "rev xs = takeWhile P (rev xs) @ dropWhile P (rev xs)" by simp
  then have "xs = rev (dropWhile P (rev xs)) @ rev (takeWhile P (rev xs))"
    by (metis rev_append rev_rev_ident)
  with False have "hd (rev (dropWhile P (rev xs))) = hd xs"
    by (metis hd_append2 rev_is_Nil_conv)
  moreover from False have "xs \<noteq> []" by auto
  ultimately have "\<not> P (hd (rev (dropWhile P (rev xs))))" using assms by simp
  with False show ?thesis
    by (cases "rev (dropWhile P (rev xs))") auto
qed

lemma trim_idem: "trim (trim s) = trim s"
proof -
  have h: "dropWhile is_space s = [] \<or> \<not> is_space (hd (dropWhile is_space s))"
    by (metis hd_dropWhile)
  have "dropWhile is_space (trim s) = trim s"
    unfolding trim_def using dropWhile_rev_prefix [of "dropWhile is_space s" is_space, OF h] .
  then show ?thesis
    by (simp add: trim_def)
qed

lemma trim_setter_idem: "trim_setter (trim_setter v) = trim_setter v"
  by (cases v) (simp_all add: trim_idem)

lemma js_or_idem: "js_or a (js_or a b) = js_or a b"
  by (simp add: js_or_def)

lemma unless_undefined_idem: "unless_undefined a (unless_undefined a b) = unless_undefined a b"
  by (simp add: unless_undefined_def)

lemma patch_task_idem: "patch_task body (patch_task body task) = patch_task body task"
  by (simp add: patch_task_def js_or_idem unless_undefined_idem)

lemma patch_board_idem:
  "patch_board name description (patch_board name description board)
     = patch_board name description board"
proof (cases "truthy name")
  case True
  then show ?thesis by (simp add: patch_board_def js_or_def)
next
  case False
  then show ?thesis by (simp add: patch_board_def js_or_def trim_setter_idem)
qed

lemma patch_comment_idem:
  "patch_comment content (patch_comment content comment) = patch_comment content comment"
  by (simp add: patch_comment_def js_or_idem)

text \<open>
  Claim C9. Partial updates are idempotent: for every stored task, board or comment
  and every payload, the field patch of the update handler applied twice with the same
  payload gives the same entity as applied once.
\<close>

theorem partial_update_idempotent:
  "patch_task body (patch_task body task) = patch_task body task
   \<and> patch_board name description (patch_board name description board)
       = patch_board name description board
   \<and> patch_comment content (patch_comment content comment) = patch_comment content comment"
  by (simp only: patch_task_idem patch_board_idem patch_comment_idem)

theorem partial_update_idempotent_witness:
  "patch_task cleared_fields (patch_task cleared_fields demo_task)
     = demo_task\<lparr>t_description := Str [], t_assignedTo := Null\<rparr>
   \<and> patch_board (Str ''  Sprint 2 '') Null (patch_board (Str ''  Sprint 2 '') Null demo_board)
     = demo_board\<lparr>b_name := Str ''Sprint 2''\<rparr>
   \<and> patch_comment (Str ''Done'') (patch_comment (Str ''Done'') demo_comment)
     = demo_comment\<lparr>c_content := Str ''Done''\<rparr>"
proof -
  have "patch_task cleared_fields demo_task
          = demo_task\<lparr>t_description := Str [], t_assignedTo := Null\<rparr>"
    by (simp add: patch_task_def cleared_fields_def no_fields_def demo_task_def js_or_def
        unless_undefined_def)
  moreover have "patch_board (Str ''  Sprint 2 '') Null demo_board
          = demo_board\<lparr>b_name := Str ''Sprint 2''\<rparr>"
    by (simp add: patch_board_def demo_board_def js_or_def trim_def is_space_def)
  moreover have "patch_comment (Str ''Done'') demo_comment
          = demo_comment\<lparr>c_content := Str ''Done''\<rparr>"
    by (simp add: patch_comment_def demo_comment_def js_or_def)
  ultimately show ?thesis
    using partial_update_idempotent [of cleared_fields demo_task "Str ''  Sprint 2 ''" Null
        demo_board "Str ''Done''" demo_comment]
    by simp
qed




subsection \<open>Not found and forbidden\<close>

lemma get_board_status:
  "((status (get_board cl caller i s) = 404)
     = (findById cl b_id (boards s) i = Missing))"
  "(findById cl b_id (boards s) i = CastError \<longrightarrow>
     status (get_board cl caller i s) = 500)"
  "(status (get_board cl caller i s) = 403 \<longrightarrow>
        (\<exists>board project. findById cl b_id (boards s) i = Found board
           \<and> populate p_id (projects s) (b_project board) = Some project
           \<and> not_authorized project caller))"
  "(\<not> strict_populate cl \<longrightarrow>
        (status (get_board cl caller i s) = 403) =
        (\<exists>board project. findById cl b_id (boards s) i = Found board
           \<and> populate p_id (projects s) (b_project board) = Some project
           \<and> not_authorized project caller))"
  by (auto simp: get_board_def status_def server_error_def Let_def
      split: lookup.splits option.splits)

lemma put_board_status:
  "((status (fst (put_board cl caller i name description s)) = 404)
     = (findById cl b_id (boards s) i = Missing))"
  "(findById cl b_id (boards s) i = CastError \<longrightarrow>
     status (fst (put_board cl caller i name description s)) = 500)"
  "((status (fst (put_board cl caller i name description s)) = 403) =
        (\<exists>board project. findById cl b_id (boards s) i = Found board
           \<and> populate p_id (projects s) (b_project board) = Some project
           \<and> not_authorized project caller))"
  by (auto simp: put_board_def status_def server_error_def Let_def
      split: lookup.splits option.splits)

lemma delete_board_status:
  "((status (fst (delete_board cl caller i s)) = 404)
     = (findById cl b_id (boards s) i = Missing))"
  "(findById cl b_id (boards s) i = CastError \<longrightarrow>
     status (fst (delete_board cl caller i s)) = 500)"
  "((status (fst (delete_board cl caller i s)) = 403) =
        (\<exists>board project. findById cl b_id (boards s) i = Found board
           \<and> populate p_id (projects s) (b_project board) = Some project
           \<and> p_owner project \<noteq> caller))"
  by (auto simp: delete_board_def status_def server_error_def Let_def
      split: lookup.splits option.splits)

lemma get_task_status:
  "((status (get_task cl caller i s) = 404)
     = (findById cl t_id (tasks s) i = Missing))"
  "(findById cl t_id (tasks s) i = CastError \<longrightarrow>
     status (get_task cl caller i s) = 500)"
  "((status (get_task cl caller i s) = 403) =
        (\<exists>task project. findById cl t_id (tasks s) i = Found task
           \<and> populate p_id (projects s) (t_project task) = Some project
           \<and> not_authorized project caller))"
  by (auto simp: get_task_def status_def server_error_def Let_def
      split: lookup.splits option.splits)

lemma put_task_status:
  "((status (fst (put_task cl caller i body nid now s)) = 404)
     = (findById cl t_id (tasks s) i = Missing))"
  "(findById cl t_id (tasks s) i = CastError \<longrightarrow>
     status (fst (put_task cl caller i body nid now s)) = 500)"
  "((status (fst (put_task cl caller i body nid now s)) = 403) =
        (\<exists>task project. findById cl t_id (tasks s) i = Found task
           \<and> populate p_id (projects s) (t_project task) = Some project
           \<and> not_authorized project caller))"
  by (auto simp: put_task_def save_task_def notify_def status_def server_error_def Let_def
      split: lookup.splits option.splits)

lemma delete_task_status:
  "((status (fst (delete_task cl caller i s)) = 404)
     = (findById cl t_id (tasks s) i = Missing))"
  "(findById cl t_id (tasks s) i = CastError \<longrightarrow>
     status (fst (delete_task cl caller i s)) = 500)"
  "((status (fst (delete_task cl caller i s)) = 403) =
        (\<exists>task project. findById cl t_id (tasks s) i = Found task
           \<and> populate p_id (projects s) (t_project task) = Some project
           \<and> p_owner project \<noteq> caller))"
  by (auto simp: delete_task_def status_def server_error_def Let_def
      split: lookup.splits option.splits)

lemma get_comment_status:
  "((status (get_comment cl caller i s) = 404)
     = (findById cl c_id (comments s) i = Missing))"
  "(findById cl c_id (comments s) i = CastError \<longrightarrow>
     status (get_comment cl caller i s) = 500)"
  "((status (get_comment cl caller i s) = 403) =
        (\<exists>comment task project. findById cl c_id (comments s) i = Found comment
           \<and> populate t_id (tasks s) (c_task comment) = Some task
           \<and> populate p_id (projects s) (t_project task) = Some project
           \<and> not_authorized project caller))"
  by (auto simp: get_comment_def status_def server_error_def Let_def
      split: lookup.splits option.splits)

lemma put_comment_status:
  "((status (fst (put_comment cl caller i content s)) = 404)
     = (findById cl c_id (comments s) i = Missing))"
  "(findById cl c_id (comments s) i = CastError \<longrightarrow>
     status (fst (put_comment cl caller i content s)) = 500)"
  "((status (fst (put_comment cl caller i content s)) = 403) =
        (\<exists>comment. findById cl c_id (comments s) i = Found comment
           \<and> c_author comment \<noteq> caller))"
  by (auto simp: put_comment_def status_def server_error_def Let_def
      split: lookup.splits option.splits)

lemma delete_comment_status:
  "((status (fst (delete_comment cl caller i s)) = 404)
     = (findById cl c_id (comments s) i = Missing))"
  "(findById cl c_id (comments s) i = CastError \<longrightarrow>
     status (fst (delete_comment cl caller i s)) = 500)"
  "((status (fst (delete_comment cl caller i s)) = 403) =
        (\<exists>comment task project. findById cl c_id (comments s) i = Found comment
           \<and> populate t_id (tasks s) (c_task comment) = Some task
           \<and> populate p_id (projects s) (t_project task) = Some project
           \<and> c_author comment \<noteq> caller \<and> p_owner project \<noteq> caller))"
  by (auto simp: delete_comment_def status_def server_error_def Let_def
      split: lookup.splits option.splits)

lemma get_notification_status:
  "((status (get_notification cl caller i s) = 404)
     = (findById cl n_id (notifications s) i = Missing))"
  "(findById cl n_id (notifications s) i = CastError \<longrightarrow>
     status (get_notification cl caller i s) = 500)"
  "((status (get_notification cl caller i s) = 403) =
        (\<exists>n. findById cl n_id (notifications s) i = Found n \<and> n_user n \<noteq> caller))"
  by (auto simp: get_notification_def status_def server_error_def Let_def
      split: lookup.splits option.splits)

lemma put_notification_read_status:
  "((status (fst (put_notification_read cl caller i s)) = 404)
     = (findById cl n_id (notifications s) i = Missing))"
  "(findById cl n_id (notifications s) i = CastError \<longrightarrow>
     status (fst (put_notification_read cl caller i s)) = 500)"
  "((status (fst (put_notification_read cl caller i s)) = 403) =
        (\<exists>n. findById cl n_id (notifications s) i = Found n \<and> n_user n \<noteq> caller))"
  by (auto simp: put_notification_read_def status_def server_error_def Let_def
      split: lookup.splits option.splits)

lemma delete_notification_status:
  "((status (fst (delete_notification cl caller i s)) = 404)
     = (findById cl n_id (notifications s) i = Missing))"
  "(findById cl n_id (notifications s) i = CastError \<longrightarrow>
     status (fst (delete_notification cl caller i s)) = 500)"
  "((status (fst (delete_notification cl caller i s)) = 403) =
        (\<exists>n. findById cl n_id (notifications s) i = Found n \<and> n_user n \<noteq> caller))"
  by (auto simp: delete_notification_def status_def server_error_def Let_def
      split: lookup.splits option.splits)

text \<open>
  Claim C5, as stated, fails: \<open>GET /api/tasks/not-an-id\<close> names no task, the lookup
  rejects the string inside the handler's \<open>try\<close>, and the answer is 500, not 404.
\<close>

theorem malformed_id_counterexample:
  "find (\<lambda>t. t_id t = ''not-an-id'') (tasks demo_store) = None
   \<and> findById (demo_client False) t_id (tasks demo_store) ''not-an-id'' = CastError
   \<and> get_task (demo_client False) carol ''not-an-id'' demo_store = (500, Message ''Server error'')"
  by (simp add: get_task_def findById_def server_error_def demo_store_def demo_task_def
      open_task_def team_task_def)

text \<open>
  Claim C5, amended. For every handler on a board, task, comment or notification
  identified by id: the answer is 404 exactly when the identifier is well formed and
  no such entity exists, whoever the caller is (not found is decided before
  authorization); an identifier that the client cannot cast yields 500; and the answer
  is 403 only when the entity exists, its owning project resolves and the caller fails
  the handler's authorization predicate, and, \<open>GET /api/boards/:id\<close> under a strict
  client aside, exactly then. So a missing entity never yields 403 and an existing one
  never yields 404.
\<close>

theorem not_found_before_forbidden:
  "((status (get_board cl caller i s) = 404)
     = (findById cl b_id (boards s) i = Missing))
   \<and> (findById cl b_id (boards s) i = CastError \<longrightarrow>
     status (get_board cl caller i s) = 500)
   \<and> (status (get_board cl caller i s) = 403 \<longrightarrow>
        (\<exists>board project. findById cl b_id (boards s) i = Found board
           \<and> populate p_id (projects s) (b_project board) = Some project
           \<and> not_authorized project caller))
   \<and> (\<not> strict_populate cl \<longrightarrow>
        (status (get_board cl caller i s) = 403) =
        (\<exists>board project. findById cl b_id (boards s) i = Found board
           \<and> populate p_id (projects s) (b_project board) = Some project
           \<and> not_authorized project caller))
   \<and> ((status (fst (put_board cl caller i name description s)) = 404)
     = (findById cl b_id (boards s) i = Missing))
   \<and> (findById cl b_id (boards s) i = CastError \<longrightarrow>
     status (fst (put_board cl caller i name description s)) = 500)
   \<and> ((status (fst (put_board cl caller i name description s)) = 403) =
        (\<exists>board project. findById cl b_id (boards s) i = Found board
           \<and> populate p_id (projects s) (b_project board) = Some project
           \<and> not_authorized project caller))
   \<and> ((status (fst (delete_board cl caller i s)) = 404)
     = (findById cl b_id (boards s) i = Missing))
   \<and> (findById cl b_id (boards s) i = CastError \<longrightarrow>
     status (fst (delete_board cl caller i s)) = 500)
   \<and> ((status (fst (delete_board cl caller i s)) = 403) =
        (\<exists>board project. findById cl b_id (boards s) i = Found board
           \<and> populate p_id (projects s) (b_project board) = Some project
           \<and> p_owner project \<noteq> caller))
   \<and> ((status (get_task cl caller i s) = 404)
     = (findById cl t_id (tasks s) i = Missing))
   \<and> (findById cl t_id (tasks s) i = CastError \<longrightarrow>
     status (get_task cl caller i s) = 500)
   \<and> ((status (get_task cl caller i s) = 403) =
        (\<exists>task project. findById cl t_id (tasks s) i = Found task
           \<and> populate p_id (projects s) (t_project task) = Some project
           \<and> not_authorized project caller))
   \<and> ((status (fst (put_task cl caller i body nid now s)) = 404)
     = (findById cl t_id (tasks s) i = Missing))
   \<and> (findById cl t_id (tasks s) i = CastError \<longrightarrow>
     status (fst (put_task cl caller i body nid now s)) = 500)
   \<and> ((status (fst (put_task cl caller i body nid now s)) = 403) =
        (\<exists>task project. findById cl t_id (tasks s) i = Found task
           \<and> populate p_id (projects s) (t_project task) = Some project
           \<and> not_authorized project caller))
   \<and> ((status (fst (delete_task cl caller i s)) = 404)
     = (findById cl t_id (tasks s) i = Missing))
   \<and> (findById cl t_id (tasks s) i = CastError \<longrightarrow>
     status (fst (delete_task cl caller i s)) = 500)
   \<and> ((status (fst (delete_task cl caller i s)) = 403) =
        (\<exists>task project. findById cl t_id (tasks s) i = Found task
           \<and> populate p_id (projects s) (t_project task) = Some project
           \<and> p_owner project \<noteq> caller))
   \<and> ((status (get_comment cl caller i s) = 404)
     = (findById cl c_id (comments s) i = Missing))
   \<and> (findById cl c_id (comments s) i = CastError \<longrightarrow>
     status (get_comment cl caller i s) = 500)
   \<and> ((status (get_comment cl caller i s) = 403) =
        (\<exists>comment task project. findById cl c_id (comments s) i = Found comment
           \<and> populate t_id (tasks s) (c_task comment) = Some task
           \<and> populate p_id (projects s) (t_project task) = Some project
           \<and> not_authorized project caller))
   \<and> ((status (fst (put_comment cl caller i content s)) = 404)
     = (findById cl c_id (comments s) i = Missing))
   \<and> (findById cl c_id (comments s) i = CastError \<longrightarrow>
     status (fst (put_comment cl caller i content s)) = 500)
   \<and> ((status (fst (put_comment cl caller i content s)) = 403) =
        (\<exists>comment. findById cl c_id (comments s) i = Found comment
           \<and> c_author comment \<noteq> caller))
   \<and> ((status (fst (delete_comment cl caller i s)) = 404)
     = (findById cl c_id (comments s) i = Missing))
   \<and> (findById cl c_id (comments s) i = CastError \<longrightarrow>
     status (fst (delete_comment cl caller i s)) = 500)
   \<and> ((status (fst (delete_comment cl caller i s)) = 403) =
        (\<exists>comment task project. findById cl c_id (comments s) i = Found comment
           \<and> populate t_id (tasks s) (c_task comment) = Some task
           \<and> populate p_id (projects s) (t_project task) = Some project
           \<and> c_author comment \<noteq> caller \<and> p_owner project \<noteq> caller))
   \<and> ((status (get_notification cl caller i s) = 404)
     = (findById cl n_id (notifications s) i = Missing))
   \<and> (findById cl n_id (notifications s) i = CastError \<longrightarrow>
     status (get_notification cl caller i s) = 500)
   \<and> ((status (get_notification cl caller i s) = 403) =
        (\<exists>n. findById cl n_id (notifications s) i = Found n \<and> n_user n \<noteq> caller))
   \<and> ((status (fst (put_notification_read cl caller i s)) = 404)
     = (findById cl n_id (notifications s) i = Missing))
   \<and> (findById cl n_id (notifications s) i = CastError \<longrightarrow>
     status (fst (put_notification_read cl caller i s)) = 500)
   \<and> ((status (fst (put_notification_read cl caller i s)) = 403) =
        (\<exists>n. findById cl n_id (notifications s) i = Found n \<and> n_user n \<noteq> caller))
   \<and> ((status (fst (delete_notification cl caller i s)) = 404)
     = (findById cl n_id (notifications s) i = Missing))
   \<and> (findById cl n_id (notifications s) i = CastError \<longrightarrow>
     status (fst (delete_notification cl caller i s)) = 500)
   \<and> ((status (fst (delete_notification cl caller i s)) = 403) =
        (\<exists>n. findById cl n_id (notifications s) i = Found n \<and> n_user n \<noteq> caller))"
  by (intro conjI;
      rule get_board_status put_board_status delete_board_status
        get_task_status put_task_status delete_task_status
        get_comment_status put_comment_status delete_comment_status
        get_notification_status put_notification_read_status delete_notification_status)

text \<open>
  \<open>carol\<close> asks for a task that does not exist and for one that does; \<open>alice\<close> asks
  for a notification of \<open>bob\<close>.
\<close>

theorem not_found_before_forbidden_witness:
  "status (get_task (demo_client False) carol t4 demo_store) = 404
   \<and> status (fst (put_task (demo_client False) carol t1 no_fields n9 9 demo_store)) = 403
   \<and> status (fst (put_board (demo_client False) carol ''not-an-id'' Undefined Undefined
        demo_store)) = 500
   \<and> status (fst (put_notification_read (demo_client False) alice n1 demo_store)) = 403
   \<and> status (fst (put_notification_read (demo_client False) alice n9 demo_store)) = 404"
proof -
  have m: "findById (demo_client False) t_id (tasks demo_store) t4 = Missing"
    by (simp add: findById_def demo_store_def demo_task_def open_task_def team_task_def)
  have bad: "findById (demo_client False) b_id (boards demo_store) ''not-an-id'' = CastError"
    by (simp add: findById_def)
  have gone: "findById (demo_client False) n_id (notifications demo_store) n9 = Missing"
    by (simp add: findById_def demo_store_def demo_notification_def)
  have "findById (demo_client False) t_id (tasks demo_store) t1 = Found demo_task
      \<and> populate p_id (projects demo_store) (t_project demo_task) = Some demo_project
      \<and> not_authorized demo_project carol"
    by (simp add: findById_def populate_def demo_store_def demo_task_def demo_project_def
        not_authorized_def array_includes_def)
  then have denied: "\<exists>task project.
        findById (demo_client False) t_id (tasks demo_store) t1 = Found task
      \<and> populate p_id (projects demo_store) (t_project task) = Some project
      \<and> not_authorized project carol"
    by blast
  have "findById (demo_client False) n_id (notifications demo_store) n1 = Found demo_notification
      \<and> n_user demo_notification \<noteq> alice"
    by (simp add: findById_def demo_store_def demo_notification_def)
  then have other: "\<exists>n. findById (demo_client False) n_id (notifications demo_store) n1 = Found n
      \<and> n_user n \<noteq> alice"
    by blast
  from not_found_before_forbidden [where cl = "demo_client False" and caller = carol
      and i = t4 and s = demo_store] m
  have a: "status (get_task (demo_client False) carol t4 demo_store) = 404" by simp
  from not_found_before_forbidden [where cl = "demo_client False" and caller = carol
      and i = t1 and s = demo_store and body = no_fields and nid = n9 and now = 9] denied
  have b: "status (fst (put_task (demo_client False) carol t1 no_fields n9 9 demo_store)) = 403"
    by simp
  from not_found_before_forbidden [where cl = "demo_client False" and caller = carol
      and i = "''not-an-id''" and s = demo_store and name = Undefined
      and description = Undefined] bad
  have c: "status (fst (put_board (demo_client False) carol ''not-an-id'' Undefined Undefined
        demo_store)) = 500"
    by simp
  from not_found_before_forbidden [where cl = "demo_client False" and caller = alice
      and i = n1 and s = demo_store] other
  have d: "status (fst (put_notification_read (demo_client False) alice n1 demo_store)) = 403"
    by simp
  from not_found_before_forbidden [where cl = "demo_client False" and caller = alice
      and i = n9 and s = demo_store] gone
  have e: "status (fst (put_notification_read (demo_client False) alice n9 demo_store)) = 404"
    by simp
  from a b c d e show ?thesis by simp
qed

subsection \<open>Who may delete, and who may edit a comment\<close>







subsection \<open>Notifications\<close>

lemma populate_key: "populate key xs i = Some x \<Longrightarrow> key x = i"
  by (auto simp: populate_def find_Some_iff)

lemma save_task_notifications:
  "notifications (snd (save_task cl body task s)) = notifications s"
  by (simp add: save_task_def split: option.splits)

lemma post_task_notifications:
  "notifications (snd (post_task cl caller body new_id nid now s)) =
     notifications s @
       (if status (fst (post_task cl caller body new_id nid now s)) = 201
        then (case assignee (q_assignedTo body) of
                None \<Rightarrow> []
              | Some a \<Rightarrow>
                  if a \<noteq> caller
                  then (case notification_schema cl
                               (new_notification nid a ''task_assigned''
                                  (''You have been assigned to task: '' @ template (q_title body))
                                  new_id (template (q_projectId body)) now) of
                          None \<Rightarrow> []
                        | Some n \<Rightarrow> [n])
                  else [])
        else [])"
  by (auto simp: post_task_def status_def server_error_def Let_def notify_def
      split: lookup.splits option.splits)

lemma put_task_notifications:
  "notifications (snd (put_task cl caller i body nid now s)) =
     notifications s @
       (case findById cl t_id (tasks s) i of
          Found task \<Rightarrow>
            (case populate p_id (projects s) (t_project task) of
               None \<Rightarrow> []
             | Some project \<Rightarrow>
                 if not_authorized project caller then []
                 else
                   (case assignee (q_assignedTo body) of
                      None \<Rightarrow> []
                    | Some a \<Rightarrow>
                        (case assignee (t_assignedTo task) of
                           None \<Rightarrow> []
                         | Some b \<Rightarrow>
                             if a \<noteq> b
                             then (case notification_schema cl
                                          (new_notification nid a ''task_assigned''
                                             (''You have been assigned to task: '' @
                                                template (t_title task))
                                             (t_id task) (t_project task) now) of
                                     None \<Rightarrow> []
                                   | Some n \<Rightarrow> [n])
                             else [])))
        | _ \<Rightarrow> [])"
  using populate_key [of p_id "projects s"]
  by (auto simp: put_task_def save_task_notifications notify_def
      split: lookup.splits option.splits)

lemma put_task_reached:
  "status (fst (put_task cl caller i body nid now s)) = 200 \<Longrightarrow>
   \<exists>task project. findById cl t_id (tasks s) i = Found task
     \<and> populate p_id (projects s) (t_project task) = Some project
     \<and> \<not> not_authorized project caller
     \<and> (assignee (q_assignedTo body) = None \<or> assignee (t_assignedTo task) = None
         \<or> assignee (q_assignedTo body) = assignee (t_assignedTo task)
         \<or> (\<exists>a. assignee (q_assignedTo body) = Some a
               \<and> notification_schema cl
                    (new_notification nid a ''task_assigned''
                       (''You have been assigned to task: '' @ template (t_title task))
                       (t_id task) (t_project task) now) \<noteq> None))"
  using populate_key [of p_id "projects s"]
  by (auto simp: put_task_def status_def server_error_def
      split: lookup.splits option.splits if_splits)

lemma put_task_refused:
  "status (fst (put_task cl caller i body nid now s)) = 404
     \<or> status (fst (put_task cl caller i body nid now s)) = 403 \<Longrightarrow>
   snd (put_task cl caller i body nid now s) = s"
  by (auto simp: put_task_def save_task_def status_def server_error_def
      split: lookup.splits option.splits if_splits)

lemma post_comment_notifications:
  "notifications (snd (post_comment cl caller content taskId new_id nid now s)) =
     notifications s @
       (if status (fst (post_comment cl caller content taskId new_id nid now s)) = 201
        then (case findByVal cl t_id (tasks s) taskId of
                Found task \<Rightarrow>
                  (case assignee (t_assignedTo task) of
                     None \<Rightarrow> []
                   | Some a \<Rightarrow>
                       if a \<noteq> caller
                       then (case notification_schema cl
                                    (new_notification nid a ''comment_added''
                                       (''New comment on task: '' @ template (t_title task))
                                       (template taskId) (t_project task) now) of
                               None \<Rightarrow> []
                             | Some n \<Rightarrow> [n])
                       else [])
              | _ \<Rightarrow> [])
        else [])"
  using populate_key [of p_id "projects s"]
  by (auto simp: post_comment_def status_def server_error_def Let_def notify_def
      split: lookup.splits option.splits)

lemma other_handlers_notifications:
  "notifications (snd (delete_task cl caller i s)) = notifications s"
  "notifications (snd (put_comment cl caller i content s)) = notifications s"
  "notifications (snd (delete_comment cl caller i s)) = notifications s"
  by (auto simp: delete_task_def put_comment_def delete_comment_def
      split: lookup.splits option.splits)

text \<open>
  Claim C2, as stated, fails: \<open>alice\<close> updates an unassigned task with
  \<open>assignedTo = bob\<close>, a value different from the caller and from the previous
  assignee (there is none); the update succeeds and no notification is created.
\<close>

theorem notification_on_update_counterexample:
  "assignee (t_assignedTo open_task) = None
   \<and> fst (put_task (demo_client False) alice t2 (no_fields\<lparr>q_assignedTo := Str bob\<rparr>)
        n2 9 demo_store)
       = (200, TaskJson (open_task\<lparr>t_assignedTo := Str bob\<rparr>))
   \<and> notifications (snd (put_task (demo_client False) alice t2
        (no_fields\<lparr>q_assignedTo := Str bob\<rparr>) n2 9 demo_store)) = notifications demo_store"
  by (simp add: put_task_def save_task_def findById_def populate_def demo_store_def
      demo_task_def open_task_def demo_project_def not_authorized_def patch_task_def
      no_fields_def js_or_def unless_undefined_def demo_task_schema_def)

text \<open>
  Claim C2, amended. The task and comment handlers create notifications as follows,
  one record per trigger, appended to the collection in the form the schema stores:
  (a) a successful task creation whose \<open>assignedTo\<close> names a user other than the
  caller creates one \<open>task_assigned\<close> notification for that user, and any other task
  creation, a failed one included, creates none;
  (b) a successful task update of a task that already has an assignee, whose
  \<open>assignedTo\<close> names a user other than that assignee and other than the caller,
  creates one \<open>task_assigned\<close> notification for the new assignee; an update that is
  answered 404 or 403, that names no assignee, that names the previous assignee, or of
  a task without a previous assignee creates none;
  (c) a successful comment creation on a task whose assignee is not the author creates
  one \<open>comment_added\<close> notification for the assignee, and any other comment creation,
  a failed one included, creates none;
  and deleting a task, updating a comment and deleting a comment create none.
\<close>

theorem notification_triggers:
  "(status (fst (post_task cl caller body new_id nid now s)) = 201
      \<and> assignee (q_assignedTo body) = Some a \<and> a \<noteq> caller \<longrightarrow>
      (\<exists>n. notifications (snd (post_task cl caller body new_id nid now s)) = notifications s @ [n]
         \<and> notification_schema cl
              (new_notification nid a ''task_assigned''
                 (''You have been assigned to task: '' @ template (q_title body))
                 new_id (template (q_projectId body)) now) = Some n))
   \<and> (status (fst (post_task cl caller body new_id nid now s)) \<noteq> 201
        \<or> assignee (q_assignedTo body) = None
        \<or> assignee (q_assignedTo body) = Some caller \<longrightarrow>
      notifications (snd (post_task cl caller body new_id nid now s)) = notifications s)
   \<and> (status (fst (put_task cl caller i body nid now s)) = 200
      \<and> findById cl t_id (tasks s) i = Found task
      \<and> assignee (q_assignedTo body) = Some a \<and> assignee (t_assignedTo task) = Some b
      \<and> a \<noteq> b \<and> a \<noteq> caller \<longrightarrow>
      (\<exists>n. notifications (snd (put_task cl caller i body nid now s)) = notifications s @ [n]
         \<and> notification_schema cl
              (new_notification nid a ''task_assigned''
                 (''You have been assigned to task: '' @ template (t_title task))
                 (t_id task) (t_project task) now) = Some n))
   \<and> (status (fst (put_task cl caller i body nid now s)) = 404
        \<or> status (fst (put_task cl caller i body nid now s)) = 403
        \<or> assignee (q_assignedTo body) = None
        \<or> (findById cl t_id (tasks s) i = Found task
            \<and> (assignee (t_assignedTo task) = None
                \<or> assignee (t_assignedTo task) = assignee (q_assignedTo body))) \<longrightarrow>
      notifications (snd (put_task cl caller i body nid now s)) = notifications s)
   \<and> (status (fst (post_comment cl caller content taskId new_id nid now s)) = 201
      \<and> findByVal cl t_id (tasks s) taskId = Found task'
      \<and> assignee (t_assignedTo task') = Some a \<and> a \<noteq> caller \<longrightarrow>
      (\<exists>n. notifications (snd (post_comment cl caller content taskId new_id nid now s))
              = notifications s @ [n]
         \<and> notification_schema cl
              (new_notification nid a ''comment_added''
                 (''New comment on task: '' @ template (t_title task'))
                 (template taskId) (t_project task') now) = Some n))
   \<and> (status (fst (post_comment cl caller content taskId new_id nid now s)) \<noteq> 201
        \<or> (findByVal cl t_id (tasks s) taskId = Found task'
            \<and> (assignee (t_assignedTo task') = None
                \<or> assignee (t_assignedTo task') = Some caller)) \<longrightarrow>
      notifications (snd (post_comment cl caller content taskId new_id nid now s)) = notifications s)
   \<and> notifications (snd (delete_task cl caller i s)) = notifications s
   \<and> notifications (snd (put_comment cl caller i content s)) = notifications s
   \<and> notifications (snd (delete_comment cl caller i s)) = notifications s"
proof -
  have create: "(status (fst (post_task cl caller body new_id nid now s)) = 201
      \<and> assignee (q_assignedTo body) = Some a \<and> a \<noteq> caller \<longrightarrow>
      (\<exists>n. notifications (snd (post_task cl caller body new_id nid now s)) = notifications s @ [n]
         \<and> notification_schema cl
              (new_notification nid a ''task_assigned''
                 (''You have been assigned to task: '' @ template (q_title body))
                 new_id (template (q_projectId body)) now) = Some n))"
  proof (intro impI)
    assume h: "status (fst (post_task cl caller body new_id nid now s)) = 201
      \<and> assignee (q_assignedTo body) = Some a \<and> a \<noteq> caller"
    then have "notification_schema cl
              (new_notification nid a ''task_assigned''
                 (''You have been assigned to task: '' @ template (q_title body))
                 new_id (template (q_projectId body)) now) \<noteq> None"
      by (auto simp: post_task_def status_def server_error_def Let_def
          split: lookup.splits option.splits if_splits)
    with h post_task_notifications [of cl caller body new_id nid now s]
    show "\<exists>n. notifications (snd (post_task cl caller body new_id nid now s))
              = notifications s @ [n]
         \<and> notification_schema cl
              (new_notification nid a ''task_assigned''
                 (''You have been assigned to task: '' @ template (q_title body))
                 new_id (template (q_projectId body)) now) = Some n"
      by auto
  qed
  have create_none: "(status (fst (post_task cl caller body new_id nid now s)) \<noteq> 201
        \<or> assignee (q_assignedTo body) = None
        \<or> assignee (q_assignedTo body) = Some caller \<longrightarrow>
      notifications (snd (post_task cl caller body new_id nid now s)) = notifications s)"
    using post_task_notifications [of cl caller body new_id nid now s] by auto
  have update: "(status (fst (put_task cl caller i body nid now s)) = 200
      \<and> findById cl t_id (tasks s) i = Found task
      \<and> assignee (q_assignedTo body) = Some a \<and> assignee (t_assignedTo task) = Some b
      \<and> a \<noteq> b \<and> a \<noteq> caller \<longrightarrow>
      (\<exists>n. notifications (snd (put_task cl caller i body nid now s)) = notifications s @ [n]
         \<and> notification_schema cl
              (new_notification nid a ''task_assigned''
                 (''You have been assigned to task: '' @ template (t_title task))
                 (t_id task) (t_project task) now) = Some n))"
    using put_task_notifications [of cl caller i body nid now s]
      put_task_reached [of cl caller i body nid now s]
    by auto
  have update_none: "(status (fst (put_task cl caller i body nid now s)) = 404
        \<or> status (fst (put_task cl caller i body nid now s)) = 403
        \<or> assignee (q_assignedTo body) = None
        \<or> (findById cl t_id (tasks s) i = Found task
            \<and> (assignee (t_assignedTo task) = None
                \<or> assignee (t_assignedTo task) = assignee (q_assignedTo body))) \<longrightarrow>
      notifications (snd (put_task cl caller i body nid now s)) = notifications s)"
    using put_task_notifications [of cl caller i body nid now s]
      put_task_refused [of cl caller i body nid now s]
    by (auto split: lookup.splits option.splits)
  have comment: "(status (fst (post_comment cl caller content taskId new_id nid now s)) = 201
      \<and> findByVal cl t_id (tasks s) taskId = Found task'
      \<and> assignee (t_assignedTo task') = Some a \<and> a \<noteq> caller \<longrightarrow>
      (\<exists>n. notifications (snd (post_comment cl caller content taskId new_id nid now s))
              = notifications s @ [n]
         \<and> notification_schema cl
              (new_notification nid a ''comment_added''
                 (''New comment on task: '' @ template (t_title task'))
                 (template taskId) (t_project task') now) = Some n))"
  proof (intro impI)
    assume h: "status (fst (post_comment cl caller content taskId new_id nid now s)) = 201
      \<and> findByVal cl t_id (tasks s) taskId = Found task'
      \<and> assignee (t_assignedTo task') = Some a \<and> a \<noteq> caller"
    then have "notification_schema cl
              (new_notification nid a ''comment_added''
                 (''New comment on task: '' @ template (t_title task'))
                 (template taskId) (t_project task') now) \<noteq> None"
      using populate_key [of p_id "projects s"]
      by (auto simp: post_comment_def status_def server_error_def Let_def
          split: lookup.splits option.splits if_splits)
    with h post_comment_notifications [of cl caller content taskId new_id nid now s]
    show "\<exists>n. notifications (snd (post_comment cl caller content taskId new_id nid now s))
              = notifications s @ [n]
         \<and> notification_schema cl
              (new_notification nid a ''comment_added''
                 (''New comment on task: '' @ template (t_title task'))
                 (template taskId) (t_project task') now) = Some n"
      by auto
  qed
  have comment_none: "(status (fst (post_comment cl caller content taskId new_id nid now s)) \<noteq> 201
        \<or> (findByVal cl t_id (tasks s) taskId = Found task'
            \<and> (assignee (t_assignedTo task') = None
                \<or> assignee (t_assignedTo task') = Some caller)) \<longrightarrow>
      notifications (snd (post_comment cl caller content taskId new_id nid now s)) = notifications s)"
    using post_comment_notifications [of cl caller content taskId new_id nid now s] by auto
  show ?thesis
    by (intro conjI; rule create create_none update update_none comment comment_none
        other_handlers_notifications)
qed

text \<open>
  \<open>alice\<close> creates a task for \<open>bob\<close>, hands \<open>bob\<close>'s task to \<open>carol\<close>, and comments
  on \<open>bob\<close>'s task.
\<close>

theorem notification_triggers_witness:
  "map n_user (notifications (snd (post_task (demo_client False) alice
       (no_fields\<lparr>q_title := Str ''Review'', q_projectId := Str p1, q_assignedTo := Str bob\<rparr>)
       t4 n2 9 demo_store))) = [bob, bob]
   \<and> map n_user (notifications (snd (put_task (demo_client False) alice t1
       (no_fields\<lparr>q_assignedTo := Str carol\<rparr>) n2 9 demo_store))) = [bob, carol]
   \<and> map n_type (notifications (snd (post_comment (demo_client False) alice (Str ''Nice'')
       (Str t1) c2 n2 9 demo_store))) = [''task_assigned'', ''comment_added'']"
proof -
  have old: "map n_user (notifications demo_store) = [bob]
      \<and> map n_type (notifications demo_store) = [''task_assigned'']"
    by (simp add: demo_store_def demo_notification_def)
  have stored: "\<And>N n. notification_schema (demo_client False) N = Some n \<Longrightarrow> n = N"
    by (simp add: demo_notification_schema_def split: if_splits)
  have tk: "findById (demo_client False) t_id (tasks demo_store) t1 = Found demo_task
      \<and> findByVal (demo_client False) t_id (tasks demo_store) (Str t1) = Found demo_task
      \<and> assignee (t_assignedTo demo_task) = Some bob"
    by (simp add: findById_def demo_store_def demo_task_def)
  have a: "status (fst (post_task (demo_client False) alice
       (no_fields\<lparr>q_title := Str ''Review'', q_projectId := Str p1, q_assignedTo := Str bob\<rparr>)
       t4 n2 9 demo_store)) = 201
      \<and> assignee (q_assignedTo
       (no_fields\<lparr>q_title := Str ''Review'', q_projectId := Str p1, q_assignedTo := Str bob\<rparr>))
         = Some bob"
    by (simp add: post_task_def status_def findById_def demo_store_def demo_project_def
        not_authorized_def no_fields_def Let_def demo_task_schema_def
        demo_notification_schema_def new_notification_def)
  have b: "status (fst (put_task (demo_client False) alice t1
       (no_fields\<lparr>q_assignedTo := Str carol\<rparr>) n2 9 demo_store)) = 200
      \<and> assignee (q_assignedTo (no_fields\<lparr>q_assignedTo := Str carol\<rparr>)) = Some carol"
    by (simp add: put_task_def save_task_def status_def findById_def populate_def
        demo_store_def demo_task_def demo_project_def not_authorized_def no_fields_def
        patch_task_def js_or_def unless_undefined_def demo_task_schema_def
        demo_notification_schema_def new_notification_def)
  have c: "status (fst (post_comment (demo_client False) alice (Str ''Nice'') (Str t1)
       c2 n2 9 demo_store)) = 201"
    by (simp add: post_comment_def status_def findById_def populate_def demo_store_def
        demo_task_def demo_project_def not_authorized_def Let_def demo_comment_schema_def
        demo_notification_schema_def new_notification_def)
  from a notification_triggers [where cl = "demo_client False" and caller = alice
      and s = demo_store and a = bob
      and body = "no_fields\<lparr>q_title := Str ''Review'', q_projectId := Str p1,
        q_assignedTo := Str bob\<rparr>" and new_id = t4 and nid = n2 and now = 9,
      THEN conjunct1]
  obtain n where n_app: "notifications (snd (post_task (demo_client False) alice
       (no_fields\<lparr>q_title := Str ''Review'', q_projectId := Str p1, q_assignedTo := Str bob\<rparr>)
       t4 n2 9 demo_store)) = notifications demo_store @ [n]"
    and n_sch: "notification_schema (demo_client False)
           (new_notification n2 bob ''task_assigned''
              (''You have been assigned to task: '' @ template (q_title
                 (no_fields\<lparr>q_title := Str ''Review'', q_projectId := Str p1,
                    q_assignedTo := Str bob\<rparr>)))
              t4 (template (q_projectId
                 (no_fields\<lparr>q_title := Str ''Review'', q_projectId := Str p1,
                    q_assignedTo := Str bob\<rparr>))) 9) = Some n"
    by blast
  from old n_app stored [OF n_sch] have r1: "map n_user (notifications (snd (post_task
       (demo_client False) alice
       (no_fields\<lparr>q_title := Str ''Review'', q_projectId := Str p1, q_assignedTo := Str bob\<rparr>)
       t4 n2 9 demo_store))) = [bob, bob]"
    by (simp add: new_notification_def)
  from b tk notification_triggers [where cl = "demo_client False" and caller = alice
      and s = demo_store and a = carol and b = bob and i = t1 and task = demo_task
      and body = "no_fields\<lparr>q_assignedTo := Str carol\<rparr>" and nid = n2 and now = 9,
      THEN conjunct2, THEN conjunct2, THEN conjunct1]
  obtain m where m_app: "notifications (snd (put_task (demo_client False) alice t1
       (no_fields\<lparr>q_assignedTo := Str carol\<rparr>) n2 9 demo_store))
         = notifications demo_store @ [m]"
    and m_sch: "notification_schema (demo_client False)
           (new_notification n2 carol ''task_assigned''
              (''You have been assigned to task: '' @ template (t_title demo_task))
              (t_id demo_task) (t_project demo_task) 9) = Some m"
    by auto
  from old m_app stored [OF m_sch] have r2: "map n_user (notifications (snd (put_task
       (demo_client False) alice t1
       (no_fields\<lparr>q_assignedTo := Str carol\<rparr>) n2 9 demo_store))) = [bob, carol]"
    by (simp add: new_notification_def)
  from c tk notification_triggers [where cl = "demo_client False" and caller = alice
      and s = demo_store and a = bob and content = "Str ''Nice''" and taskId = "Str t1"
      and task' = demo_task and new_id = c2 and nid = n2 and now = 9,
      THEN conjunct2, THEN conjunct2, THEN conjunct2, THEN conjunct2, THEN conjunct1]
  obtain k where k_app: "notifications (snd (post_comment (demo_client False) alice (Str ''Nice'')
       (Str t1) c2 n2 9 demo_store)) = notifications demo_store @ [k]"
    and k_sch: "notification_schema (demo_client False)
           (new_notification n2 bob ''comment_added''
              (''New comment on task: '' @ template (t_title demo_task))
              (template (Str t1)) (t_project demo_task) 9) = Some k"
    by auto
  from old k_app stored [OF k_sch] have r3: "map n_type (notifications (snd (post_comment
       (demo_client False) alice (Str ''Nice'') (Str t1) c2 n2 9 demo_store)))
         = [''task_assigned'', ''comment_added'']"
    by (simp add: new_notification_def)
  from r1 r2 r3 show ?thesis by simp
qed

subsection \<open>The fan-out of events\<close>

lemma on_event_distinct: "distinct r \<Longrightarrow> distinct (on_event e r)"
  by (cases e) (auto simp: on_join_project_def socket_join_def on_disconnect_def)

lemma rooms_after_distinct: "distinct r \<Longrightarrow> distinct (rooms_after es r)"
  by (induction es arbitrary: r) (auto simp: on_event_distinct)

lemma io_to_emit_set:
  "((k, e, d) \<in> set (io_to_emit room event data r))
     = (e = event \<and> d = data \<and> (k, room) \<in> set r)"
  by (auto simp: io_to_emit_def)

lemma io_to_emit_distinct: "distinct r \<Longrightarrow> distinct (io_to_emit room event data r)"
  by (auto simp: io_to_emit_def distinct_map inj_on_def intro!: distinct_filter)

text \<open>
  Claim C4, as stated, fails: socket 1 has joined the first project's room and
  publishes \<open>task-updated\<close>; the server's broadcast reaches socket 1 itself as well as
  socket 2.
\<close>

theorem publisher_excluded_counterexample:
  "on_task_updated 1 demo_payload (rooms_after demo_events [])
     = [(1, ''task-update'', demo_payload), (2, ''task-update'', demo_payload)]"
  by (simp add: on_task_updated_def io_to_emit_def demo_events_def demo_payload_def
      on_join_project_def socket_join_def room_of_def)

text \<open>
  Claim C4, amended. For every publish of a \<open>task-updated\<close> or \<open>comment-added\<close> event
  carrying a payload with a projectId, the server sends that payload unchanged (as
  \<open>task-update\<close>, respectively \<open>new-comment\<close>) to every socket currently joined to
  that project's room, once each, the publisher included when it has joined the room
  itself; nothing about the publisher is checked, so the deliveries are the same
  whoever publishes.
\<close>

theorem fan_out_to_room:
  "(((k, e, d) \<in> set (on_task_updated sock data (rooms_after es [])))
      = (e = ''task-update'' \<and> d = data
         \<and> (k, room_of (d_projectId data)) \<in> set (rooms_after es [])))
   \<and> (((k, e, d) \<in> set (on_comment_added sock data (rooms_after es [])))
      = (e = ''new-comment'' \<and> d = data
         \<and> (k, room_of (d_projectId data)) \<in> set (rooms_after es [])))
   \<and> distinct (on_task_updated sock data (rooms_after es []))
   \<and> distinct (on_comment_added sock data (rooms_after es []))
   \<and> on_task_updated sock data r = on_task_updated sock' data r
   \<and> on_comment_added sock data r = on_comment_added sock' data r"
proof -
  have "distinct (rooms_after es [])"
    by (rule rooms_after_distinct) simp
  then show ?thesis
    by (simp add: on_task_updated_def on_comment_added_def io_to_emit_set io_to_emit_distinct)
qed

text \<open>
  Socket 3 has not joined the first project's room: its publish reaches sockets 1 and
  2 and not itself.
\<close>

theorem fan_out_to_room_witness:
  "(1, ''new-comment'', demo_payload) \<in> set (on_comment_added 3 demo_payload (rooms_after demo_events []))
   \<and> (2, ''new-comment'', demo_payload) \<in> set (on_comment_added 3 demo_payload (rooms_after demo_events []))
   \<and> (3, ''new-comment'', demo_payload) \<notin> set (on_comment_added 3 demo_payload (rooms_after demo_events []))
   \<and> (1, ''task-update'', demo_payload) \<in> set (on_task_updated 1 demo_payload (rooms_after demo_events []))"
proof -
  have r: "rooms_after demo_events [] = [(1, ''project-p1''), (2, ''project-p1''), (3, ''project-p2'')]"
    by (simp add: demo_events_def on_join_project_def socket_join_def room_of_def)
  have p: "room_of (d_projectId demo_payload) = ''project-p1''"
    by (simp add: demo_payload_def room_of_def)
  from r p fan_out_to_room [of 1 "''new-comment''" demo_payload 3 demo_payload demo_events]
    fan_out_to_room [of 2 "''new-comment''" demo_payload 3 demo_payload demo_events]
    fan_out_to_room [of 3 "''new-comment''" demo_payload 3 demo_payload demo_events]
    fan_out_to_room [of 1 "''task-update''" demo_payload 1 demo_payload demo_events]
  show ?thesis by simp
qed

subsection \<open>Listings\<close>

lemma sort_desc_mset: "mset (sort_desc f xs) = mset xs"
  by (simp add: sort_desc_def)

lemma sort_desc_sorted: "sorted_wrt (\<lambda>x y. f y \<le> f x) (sort_desc f xs)"
proof -
  have "sorted (map f (sort_key f xs))" by (rule sorted_sort_key)
  then have "sorted_wrt (\<lambda>x y. f x \<le> f y) (sort_key f xs)"
    by (simp add: sorted_map)
  then show ?thesis
    by (simp add: sort_desc_def sorted_wrt_rev)
qed

lemma take_most_recent:
  assumes "sorted_wrt (\<lambda>x y. f y \<le> f x) xs"
  shows "\<forall>x \<in> set (take n xs). \<forall>y \<in> set (drop n xs). f y \<le> f x"
proof -
  have "sorted_wrt (\<lambda>x y. f y \<le> f x) (take n xs @ drop n xs)" using assms by simp
  then show ?thesis unfolding sorted_wrt_append by blast
qed

lemma take_sorted: "sorted_wrt P xs \<Longrightarrow> sorted_wrt P (take n xs)"
  by (metis append_take_drop_id sorted_wrt_append)

lemma get_notifications_capped:
  "\<exists>L rest. get_notifications caller s = (200, NotificationsJson L)
     \<and> length L = min 50 (length (filter (\<lambda>n. n_user n = caller) (notifications s)))
     \<and> mset L + mset rest = mset (filter (\<lambda>n. n_user n = caller) (notifications s))
     \<and> sorted_wrt (\<lambda>x y. n_createdAt y \<le> n_createdAt x) L
     \<and> (\<forall>x \<in> set L. \<forall>y \<in> set rest. n_createdAt y \<le> n_createdAt x)"
proof -
  let ?S = "sort_desc n_createdAt (filter (\<lambda>n. n_user n = caller) (notifications s))"
  have len: "length ?S = length (filter (\<lambda>n. n_user n = caller) (notifications s))"
    by (metis sort_desc_mset size_mset)
  have "mset (take 50 ?S) + mset (drop 50 ?S) = mset ?S"
    by (metis append_take_drop_id mset_append)
  then have ms: "mset (take 50 ?S) + mset (drop 50 ?S)
      = mset (filter (\<lambda>n. n_user n = caller) (notifications s))"
    by (simp add: sort_desc_mset)
  have "get_notifications caller s = (200, NotificationsJson (take 50 ?S))"
    by (simp add: get_notifications_def)
  moreover have "length (take 50 ?S)
      = min 50 (length (filter (\<lambda>n. n_user n = caller) (notifications s)))"
    using len by simp
  moreover have "sorted_wrt (\<lambda>x y. n_createdAt y \<le> n_createdAt x) (take 50 ?S)"
    by (rule take_sorted) (rule sort_desc_sorted)
  moreover have "\<forall>x \<in> set (take 50 ?S). \<forall>y \<in> set (drop 50 ?S). n_createdAt y \<le> n_createdAt x"
    by (rule take_most_recent) (rule sort_desc_sorted)
  ultimately show ?thesis using ms by blast
qed

lemma get_boards_of_project_sorted:
  assumes "findById cl p_id (projects s) projectId = Found project"
    and "status (get_boards_of_project cl caller projectId s) = 200"
  shows "\<exists>L. get_boards_of_project cl caller projectId s = (200, BoardsJson L)
     \<and> mset L = mset (filter (\<lambda>b. b_project b = p_id project) (boards s))
     \<and> sorted_wrt (\<lambda>x y. b_createdAt y \<le> b_createdAt x) L"
  using assms
  by (auto simp: get_boards_of_project_def status_def server_error_def Let_def
      sort_desc_mset sort_desc_sorted split: if_splits)

lemma get_tasks_of_project_sorted:
  assumes "findById cl p_id (projects s) projectId = Found project"
    and "\<not> not_authorized project caller"
  shows "\<exists>L. get_tasks_of_project cl caller projectId s = (200, TasksJson L)
     \<and> mset L = mset (filter (\<lambda>t. t_project t = p_id project) (tasks s))
     \<and> sorted_wrt (\<lambda>x y. t_createdAt y \<le> t_createdAt x) L"
  using assms by (simp add: get_tasks_of_project_def sort_desc_mset sort_desc_sorted)

lemma get_tasks_of_board_sorted:
  assumes "findById cl b_id (boards s) boardId = Found board"
    and "populate p_id (projects s) (b_project board) = Some project"
    and "\<not> not_authorized project caller"
  shows "\<exists>L. get_tasks_of_board cl caller boardId s = (200, TasksJson L)
     \<and> mset L = mset (filter (\<lambda>t. t_board t = Str (b_id board)) (tasks s))
     \<and> sorted_wrt (\<lambda>x y. t_createdAt y \<le> t_createdAt x) L"
  using assms by (simp add: get_tasks_of_board_def sort_desc_mset sort_desc_sorted)

lemma get_comments_of_task_sorted:
  assumes "findById cl t_id (tasks s) taskId = Found task"
    and "populate p_id (projects s) (t_project task) = Some project"
    and "\<not> not_authorized project caller"
  shows "\<exists>L. get_comments_of_task cl caller taskId s = (200, CommentsJson L)
     \<and> mset L = mset (filter (\<lambda>c. c_task c = t_id task) (comments s))
     \<and> sorted_wrt (\<lambda>x y. c_createdAt y \<le> c_createdAt x) L"
  using assms by (simp add: get_comments_of_task_def sort_desc_mset sort_desc_sorted)

lemma get_unread_notifications_sorted:
  "\<exists>L. get_unread_notifications caller s = (200, NotificationsJson L)
     \<and> mset L = mset (filter (\<lambda>n. n_user n = caller \<and> n_read n = False) (notifications s))
     \<and> sorted_wrt (\<lambda>x y. n_createdAt y \<le> n_createdAt x) L"
  by (simp add: get_unread_notifications_def sort_desc_mset sort_desc_sorted)

text \<open>
  Claim C8, as stated, fails: \<open>GET /api/projects\<close> is a list handler and applies no
  sort. After \<open>alice\<close> has created two projects it returns them in the store's order,
  the earlier one first.
\<close>

theorem project_listing_order_counterexample:
  "get_projects alice (run (Str ''active'') True (demo_client False) two_projects empty_store)
     = (200, ProjectsJson
          (projects (run (Str ''active'') True (demo_client False) two_projects empty_store)))
   \<and> map p_createdAt
        (projects (run (Str ''active'') True (demo_client False) two_projects empty_store))
       = [1, 2]"
  by (simp add: get_projects_def two_projects_def empty_store_def post_project_def Let_def)

text \<open>
  Claim C8, amended. Every list handler of tasks, comments and notifications returns
  the entities matching its scope filter ordered by creation time, latest first, and so
  does the board list handler whenever it answers 200; the project listing returns the
  projects that the caller owns or is a member of, in the store's order, with no sort
  applied. No list handler paginates except the notification listing, which returns
  the 50 most recent notifications of the caller (all of them when there are fewer).
\<close>

theorem listings_latest_first:
  "(findById cl p_id (projects s) projectId = Found project
        \<and> status (get_boards_of_project cl caller projectId s) = 200 \<longrightarrow>
      (\<exists>L. get_boards_of_project cl caller projectId s = (200, BoardsJson L)
         \<and> mset L = mset (filter (\<lambda>b. b_project b = p_id project) (boards s))
         \<and> sorted_wrt (\<lambda>x y. b_createdAt y \<le> b_createdAt x) L))
   \<and> (findById cl p_id (projects s) projectId = Found project
        \<and> \<not> not_authorized project caller \<longrightarrow>
      (\<exists>L. get_tasks_of_project cl caller projectId s = (200, TasksJson L)
         \<and> mset L = mset (filter (\<lambda>t. t_project t = p_id project) (tasks s))
         \<and> sorted_wrt (\<lambda>x y. t_createdAt y \<le> t_createdAt x) L))
   \<and> (findById cl b_id (boards s) boardId = Found board
        \<and> populate p_id (projects s) (b_project board) = Some project
        \<and> \<not> not_authorized project caller \<longrightarrow>
      (\<exists>L. get_tasks_of_board cl caller boardId s = (200, TasksJson L)
         \<and> mset L = mset (filter (\<lambda>t. t_board t = Str (b_id board)) (tasks s))
         \<and> sorted_wrt (\<lambda>x y. t_createdAt y \<le> t_createdAt x) L))
   \<and> (findById cl t_id (tasks s) taskId = Found task
        \<and> populate p_id (projects s) (t_project task) = Some project
        \<and> \<not> not_authorized project caller \<longrightarrow>
      (\<exists>L. get_comments_of_task cl caller taskId s = (200, CommentsJson L)
         \<and> mset L = mset (filter (\<lambda>c. c_task c = t_id task) (comments s))
         \<and> sorted_wrt (\<lambda>x y. c_createdAt y \<le> c_createdAt x) L))
   \<and> (\<exists>L. get_unread_notifications caller s = (200, NotificationsJson L)
         \<and> mset L = mset (filter (\<lambda>n. n_user n = caller \<and> n_read n = False) (notifications s))
         \<and> sorted_wrt (\<lambda>x y. n_createdAt y \<le> n_createdAt x) L)
   \<and> (\<exists>L rest. get_notifications caller s = (200, NotificationsJson L)
         \<and> length L = min 50 (length (filter (\<lambda>n. n_user n = caller) (notifications s)))
         \<and> mset L + mset rest = mset (filter (\<lambda>n. n_user n = caller) (notifications s))
         \<and> sorted_wrt (\<lambda>x y. n_createdAt y \<le> n_createdAt x) L
         \<and> (\<forall>x \<in> set L. \<forall>y \<in> set rest. n_createdAt y \<le> n_createdAt x))
   \<and> get_projects caller s
        = (200, ProjectsJson
             (filter (\<lambda>p. p_owner p = caller \<or> caller \<in> set (map m_user (p_members p)))
                (projects s)))"
proof -
  have projects_part: "get_projects caller s
        = (200, ProjectsJson
             (filter (\<lambda>p. p_owner p = caller \<or> caller \<in> set (map m_user (p_members p)))
                (projects s)))"
    by (simp add: get_projects_def)
  from get_boards_of_project_sorted [of cl s projectId project caller]
    get_tasks_of_project_sorted [of cl s projectId project caller]
    get_tasks_of_board_sorted [of cl s boardId board project caller]
    get_comments_of_task_sorted [of cl s taskId task project caller]
    get_unread_notifications_sorted [of caller s]
    get_notifications_capped [of caller s]
    projects_part
  show ?thesis by blast
qed

text \<open>
  \<open>alice\<close> lists the tasks of her first project, the later one comes first; \<open>bob\<close>
  lists his notifications.
\<close>

theorem listings_latest_first_witness:
  "get_tasks_of_project (demo_client False) alice p1 demo_store
     = (200, TasksJson [open_task, demo_task])
   \<and> map t_createdAt [open_task, demo_task] = [6, 5]
   \<and> mset [open_task, demo_task] = mset (filter (\<lambda>t. t_project t = p1) (tasks demo_store))
   \<and> get_notifications bob demo_store = (200, NotificationsJson [demo_notification])"
proof -
  have p: "findById (demo_client False) p_id (projects demo_store) p1 = Found demo_project
      \<and> \<not> not_authorized demo_project alice \<and> p_id demo_project = p1"
    by (simp add: findById_def demo_store_def demo_project_def not_authorized_def)
  have ev: "get_tasks_of_project (demo_client False) alice p1 demo_store
      = (200, TasksJson [open_task, demo_task])"
    by (simp add: get_tasks_of_project_def findById_def demo_store_def demo_project_def
        not_authorized_def sort_desc_def demo_task_def open_task_def team_task_def)
  have times: "map t_createdAt [open_task, demo_task] = [6, 5]"
    by (simp add: demo_task_def open_task_def)
  have n: "get_notifications bob demo_store = (200, NotificationsJson [demo_notification])"
    by (simp add: get_notifications_def demo_store_def demo_notification_def sort_desc_def)
  from p listings_latest_first [where cl = "demo_client False" and s = demo_store
      and projectId = p1 and project = demo_project and caller = alice,
      THEN conjunct2, THEN conjunct1]
  obtain L where "get_tasks_of_project (demo_client False) alice p1 demo_store
      = (200, TasksJson L)"
    and "mset L = mset (filter (\<lambda>t. t_project t = p1) (tasks demo_store))"
    by auto
  with ev have "mset [open_task, demo_task]
      = mset (filter (\<lambda>t. t_project t = p1) (tasks demo_store))"
    by simp
  with ev times n show ?thesis by simp
qed

subsection \<open>The handlers under a strict client and a rejecting schema\<close>

text \<open>
  With a client that refuses to populate an undeclared path, reading a board that
  exists and listing the boards of a project that has one are answered 500; a project
  without boards is listed as empty.
\<close>

lemma strict_client_boards:
  "get_board (demo_client True) alice b1 demo_store = server_error
   \<and> get_boards_of_project (demo_client True) alice p1 demo_store = server_error
   \<and> get_boards_of_project (demo_client True) alice p1 (demo_store\<lparr>boards := []\<rparr>)
       = (200, BoardsJson [])"
  by (simp add: get_board_def get_boards_of_project_def findById_def demo_store_def
      demo_project_def demo_board_def team_board_def not_authorized_def sort_desc_def)

text \<open>
  \<open>alice\<close> hands \<open>bob\<close>'s task to \<open>carol\<close> with a due date that the schema cannot
  cast: the notification is saved before the task is, the answer is 500, the task is
  unchanged and the notification stays.
\<close>

lemma failed_update_keeps_notification:
  "status (fst (put_task (demo_client False) alice t1
      (no_fields\<lparr>q_assignedTo := Str carol, q_dueDate := Str ''tomorrow''\<rparr>) n2 9 demo_store))
     = 500
   \<and> tasks (snd (put_task (demo_client False) alice t1
      (no_fields\<lparr>q_assignedTo := Str carol, q_dueDate := Str ''tomorrow''\<rparr>) n2 9 demo_store))
     = tasks demo_store
   \<and> map n_user (notifications (snd (put_task (demo_client False) alice t1
      (no_fields\<lparr>q_assignedTo := Str carol, q_dueDate := Str ''tomorrow''\<rparr>) n2 9 demo_store)))
     = [bob, carol]"
  by (simp add: put_task_def save_task_def status_def server_error_def findById_def
      populate_def demo_store_def demo_task_def demo_project_def demo_notification_def
      not_authorized_def no_fields_def patch_task_def js_or_def unless_undefined_def
      demo_task_schema_def demo_notification_schema_def new_notification_def notify_def)

end
